theory Spec2Isabelle
  imports Complex_Main "HOL-Library.Word"
begin

unbundle bit_operations_syntax

section \<open>Data structures of aille.hpp\<close>

text \<open>
  A value of the C++ type \<open>float\<close> is modelled by the real number it denotes, so a
  comparison of two floats is the comparison of the reals. The machine integers that the
  caller supplies (\<open>int\<close> fields of the configuration, \<open>uint64_t\<close> timestamps and the
  decision counter) are words of their width; \<open>sint\<close> reads an \<open>int\<close>. The counters that
  the engine computes itself (\<open>agreement_count\<close>, \<open>models_agreed\<close>) never exceed the
  number of signals of one batch and are integers.
\<close>

subsection \<open>Float arithmetic\<close>

text \<open>
  A float operation returns the float nearest to the exact result. A \<open>rounding\<close> maps
  the exact result to the float returned: the sum \<open>a + b\<close> of two floats is
  \<open>rnd (a + b)\<close>, their quotient \<open>rnd (a / b)\<close>, the conversion of an integer \<open>i\<close> to
  \<open>float\<close> is \<open>rnd i\<close>. The functions whose float arithmetic decides a branch or a sign
  (\<open>checkConsensus\<close>, \<open>calculateFallbackValue\<close>) take the rounding as a parameter and
  round every operation with it; the theorems about them hold for every rounding.
  The remaining float arithmetic of the engine produces reported values only (the
  product with the penalty 0.8, the mean confidence, \<open>tanh\<close> of 100 times the consensus
  value, the product of the sign and the fallback scale) and is the exact one.

  \<open>binary32\<close> is the rounding of IEEE 754 single precision, to the nearest float with
  ties to the even significand: \<open>e\<close> is the exponent of \<open>x\<close> (at least \<open>-126\<close>, below
  which the floats are subnormal) and \<open>ulp\<close> the distance of two floats at that
  exponent. An overflow to infinity and NaN are not modelled. \<open>exact_arith\<close> rounds
  nothing.
\<close>

type_synonym rounding = "real \<Rightarrow> real"

definition round_half_even :: "real \<Rightarrow> int" where
  "round_half_even y =
     (let f = \<lfloor>y\<rfloor>; d = y - of_int f
      in if d < 1 / 2 then f else if d > 1 / 2 then f + 1 else if even f then f else f + 1)"

definition binary32 :: rounding where
  "binary32 x =
     (if x = 0 then 0
      else
        let e = max \<lfloor>log 2 \<bar>x\<bar>\<rfloor> (- 126);
            ulp = 2 powr of_int (e - 23)
        in of_int (round_half_even (x / ulp)) * ulp)"

definition exact_arith :: rounding where
  "exact_arith x = x"

text \<open>The loop \<open>for (float val : xs) sum += val\<close> from \<open>sum = 0.0f\<close>.\<close>

definition float_sum :: "rounding \<Rightarrow> real list \<Rightarrow> real" where
  "float_sum rnd xs = foldl (\<lambda>sum val. rnd (sum + val)) 0 xs"

datatype DecisionStatus =
    DECISION_VALID
  | REJECTED_LOW_CONFIDENCE
  | REJECTED_NO_CONSENSUS
  | FALLBACK_ACTIVATED
  | ERROR_NO_MODELS

record ModelSignal =
  sig_value :: real
  sig_confidence :: real
  sig_timestamp_ns :: "64 word"
  model_id :: "32 word"

record Decision =
  final_value :: real
  status :: DecisionStatus
  confidence :: real
  models_agreed :: int
  fallback_used :: bool
  timestamp_ns :: "64 word"
  contributing_models :: "32 word list"
  reasoning :: string

record AILLEConfig =
  min_confidence_threshold :: real
  grace_confidence_threshold :: real
  min_models_required :: "32 word"
  sign_agreement_threshold :: real
  fallback_window_size :: "32 word"
  fallback_position_scale :: real
  max_model_count :: "32 word"

text \<open>The default constructors \<open>Decision()\<close> and \<open>AILLEConfig()\<close>.\<close>

definition Decision_init :: Decision where
  "Decision_init =
     \<lparr>final_value = 0, status = ERROR_NO_MODELS, confidence = 0, models_agreed = 0,
      fallback_used = False, timestamp_ns = 0, contributing_models = [], reasoning = []\<rparr>"

definition AILLEConfig_init :: AILLEConfig where
  "AILLEConfig_init =
     \<lparr>min_confidence_threshold = 35 / 100, grace_confidence_threshold = 25 / 100,
      min_models_required = 2, sign_agreement_threshold = 66 / 100,
      fallback_window_size = 50, fallback_position_scale = 1 / 10,
      max_model_count = 10\<rparr>"

text \<open>
  \<open>static_cast<size_t>(i)\<close> for an \<open>int\<close> \<open>i\<close>: sign extension to 64 bits, read
  unsigned. A negative \<open>i\<close> becomes a size above \<open>2 ^ 63\<close>.
\<close>

definition size_t_of_int :: "32 word \<Rightarrow> nat" where
  "size_t_of_int i = unat (scast i :: 64 word)"

section \<open>The engine\<close>

record AILLEEngine =
  config :: AILLEConfig
  fallback_buffer :: "real list"

definition AILLEEngine_init :: "AILLEConfig \<Rightarrow> AILLEEngine" where
  "AILLEEngine_init cfg = \<lparr>config = cfg, fallback_buffer = []\<rparr>"

subsection \<open>applySafetyLayer\<close>

text \<open>The range-for loop of \<open>applySafetyLayer\<close>, with the vector \<open>valid\<close> it pushes to.\<close>

fun applySafetyLayer_loop ::
  "AILLEConfig \<Rightarrow> ModelSignal list \<Rightarrow> ModelSignal list \<Rightarrow> ModelSignal list" where
  "applySafetyLayer_loop cfg [] valid = valid"
| "applySafetyLayer_loop cfg (sg # signals) valid =
     (if sig_confidence sg \<ge> min_confidence_threshold cfg then
        applySafetyLayer_loop cfg signals (valid @ [sg])
      else if sig_confidence sg \<ge> grace_confidence_threshold cfg then
        applySafetyLayer_loop cfg signals
          (valid @ [sg\<lparr>sig_confidence := sig_confidence sg * (8 / 10)\<rparr>])
      else applySafetyLayer_loop cfg signals valid)"

definition applySafetyLayer :: "AILLEConfig \<Rightarrow> ModelSignal list \<Rightarrow> ModelSignal list" where
  "applySafetyLayer cfg signals = applySafetyLayer_loop cfg signals []"

subsection \<open>The fallback buffer\<close>

text \<open>
  \<open>calculateFallbackValue\<close>: 0 for the empty buffer, otherwise the float running sum
  of the buffer divided, in float, by its size converted to \<open>float\<close>.
\<close>

definition calculateFallbackValue :: "rounding \<Rightarrow> AILLEEngine \<Rightarrow> real" where
  "calculateFallbackValue rnd e =
     (if fallback_buffer e = [] then 0
      else rnd (float_sum rnd (fallback_buffer e) / rnd (real (length (fallback_buffer e)))))"

text \<open>
  The loop \<open>while (fallback_buffer.size() > window) fallback_buffer.pop_front()\<close>,
  \<open>window\<close> being the configured size after its cast to \<open>size_t\<close>.
\<close>

function pop_front_while :: "nat \<Rightarrow> real list \<Rightarrow> real list" where
  "pop_front_while window buf =
     (if length buf > window then pop_front_while window (tl buf) else buf)"
  by pat_completeness auto
termination
  by (relation "measure (\<lambda>(window, buf). length buf)") auto

declare pop_front_while.simps [simp del]

definition updateFallbackBuffer :: "AILLEEngine \<Rightarrow> real \<Rightarrow> AILLEEngine" where
  "updateFallbackBuffer e v =
     e\<lparr>fallback_buffer :=
         pop_front_while (size_t_of_int (fallback_window_size (config e)))
           (fallback_buffer e @ [v])\<rparr>"

definition smoothPosition :: "real \<Rightarrow> real \<Rightarrow> real" where
  "smoothPosition signal scale = tanh (signal * scale)"

definition getFallbackValue :: "rounding \<Rightarrow> AILLEEngine \<Rightarrow> real" where
  "getFallbackValue rnd e =
     (if calculateFallbackValue rnd e \<ge> 0 then 1 else - 1)
       * fallback_position_scale (config e)"

definition reset :: "AILLEEngine \<Rightarrow> AILLEEngine" where
  "reset e = e\<lparr>fallback_buffer := []\<rparr>"

subsection \<open>checkConsensus\<close>

text \<open>
  \<open>checkConsensus\<close> returns a \<open>bool\<close> and writes its two reference parameters: on every
  path \<open>models_agreed\<close>, on the successful path also \<open>consensus_value\<close>.
  \<open>ConsensusFailed m\<close> is the result \<open>false\<close> with \<open>models_agreed = m\<close>,
  \<open>ConsensusReached v m\<close> the result \<open>true\<close> with \<open>consensus_value = v\<close> and
  \<open>models_agreed = m\<close>. The read \<open>sorted[sorted.size() / 2]\<close> is outside the vector
  when it is empty; the model returns \<open>None\<close> there. \<open>agreement_ratio\<close> is the float
  quotient of \<open>agreement_count\<close> and \<open>values.size()\<close>, both converted to \<open>float\<close>; the
  sum of the agreeing values is a float running sum, divided in float by \<open>count\<close>
  converted to \<open>float\<close>.
\<close>

datatype consensus_result = ConsensusFailed int | ConsensusReached real int

definition checkConsensus ::
  "rounding \<Rightarrow> AILLEConfig \<Rightarrow> ModelSignal list \<Rightarrow> consensus_result option" where
  "checkConsensus rnd cfg valid_signals =
     (if length valid_signals < size_t_of_int (min_models_required cfg) then
        Some (ConsensusFailed 0)
      else
        let values = foldl (\<lambda>vs sg. vs @ [sig_value sg]) [] valid_signals;
            sorted = sort values
        in if \<not> length sorted div 2 < length sorted then None
           else
             let median = sorted ! (length sorted div 2);
                 median_sign = (if median \<ge> 0 then 1 else - 1 :: real);
                 agreement_count =
                   foldl (\<lambda>n val. if (if val \<ge> 0 then 1 else - 1) = median_sign
                                     then n + 1 else n) (0 :: int) values;
                 agreement_ratio =
                   rnd (rnd (real_of_int agreement_count) / rnd (real (length values)))
             in if agreement_ratio \<ge> sign_agreement_threshold cfg \<and>
                   agreement_count \<ge> sint (min_models_required cfg) then
                  let (sum, count) =
                        foldl (\<lambda>(sum, count) sg.
                                 if (if sig_value sg \<ge> 0 then 1 else - 1) = median_sign
                                 then (rnd (sum + sig_value sg), count + 1)
                                 else (sum, count))
                          (0, 0 :: int) valid_signals
                  in Some (ConsensusReached (rnd (sum / rnd (real_of_int count)))
                       agreement_count)
                else Some (ConsensusFailed agreement_count))"

subsection \<open>makeDecision\<close>

text \<open>\<open>std::to_string\<close> of an \<open>int\<close>: its decimal digits, after a minus sign when negative.\<close>

fun digits :: "nat \<Rightarrow> string" where
  "digits n =
     (if n < 10 then [''0123456789'' ! n]
      else digits (n div 10) @ [''0123456789'' ! (n mod 10)])"

declare digits.simps [simp del]

definition to_string :: "int \<Rightarrow> string" where
  "to_string i = (if i < 0 then CHR ''-'' # digits (nat (- i)) else digits (nat i))"

text \<open>
  \<open>makeDecision\<close> reads the clock once, at its entry (\<open>now\<close>), and returns the decision
  together with the engine after the call. \<open>None\<close> stands for the out-of-range read of
  \<open>checkConsensus\<close>.
\<close>

definition makeDecision ::
  "rounding \<Rightarrow> AILLEEngine \<Rightarrow> 64 word \<Rightarrow> ModelSignal list \<Rightarrow>
     (Decision \<times> AILLEEngine) option" where
  "makeDecision rnd e now model_signals =
     (let decision = Decision_init\<lparr>timestamp_ns := now\<rparr> in
      if model_signals = [] then
        Some (decision\<lparr>status := ERROR_NO_MODELS, reasoning := ''No model inputs''\<rparr>, e)
      else
        let valid = applySafetyLayer (config e) model_signals in
        if valid = [] then
          Some (decision\<lparr>status := REJECTED_LOW_CONFIDENCE,
                  final_value := getFallbackValue rnd e,
                  confidence := 1 / 10,
                  fallback_used := True,
                  reasoning := ''All models failed confidence - fallback''\<rparr>, e)
        else
          (case checkConsensus rnd (config e) valid of
             None \<Rightarrow> None
           | Some (ConsensusFailed models_agreed') \<Rightarrow>
               Some (decision\<lparr>status := REJECTED_NO_CONSENSUS,
                       final_value := getFallbackValue rnd e,
                       confidence := 2 / 10,
                       fallback_used := True,
                       models_agreed := models_agreed',
                       reasoning := ''No consensus - fallback''\<rparr>, e)
           | Some (ConsensusReached consensus_value models_agreed') \<Rightarrow>
               let decision = decision\<lparr>status := DECISION_VALID,
                       final_value := smoothPosition consensus_value 100\<rparr>;
                   (total_conf, contributing) =
                     foldl (\<lambda>(total_conf, contributing) sg.
                              (total_conf + sig_confidence sg, contributing @ [model_id sg]))
                       (0, []) valid;
                   decision = decision\<lparr>contributing_models := contributing,
                       confidence := total_conf / real (length valid),
                       models_agreed := models_agreed',
                       fallback_used := False,
                       reasoning := ''Consensus: '' @ to_string models_agreed' @ '' models''\<rparr>
               in Some (decision, updateFallbackBuffer e (final_value decision))))"

definition setConfig :: "AILLEEngine \<Rightarrow> AILLEConfig \<Rightarrow> AILLEEngine" where
  "setConfig e cfg = e\<lparr>config := cfg\<rparr>"

subsection \<open>Sequences of calls on one engine\<close>

text \<open>
  The public calls that change an engine: \<open>makeDecision\<close> (with the clock reading and
  the batch), \<open>reset\<close> and \<open>setConfig\<close>. \<open>run_ops\<close> makes them one after the other.
  \<open>changes_config\<close> tells the \<open>setConfig\<close> calls from the others.
\<close>

datatype engine_op =
    MakeDecision "64 word" "ModelSignal list"
  | Reset
  | SetConfig AILLEConfig

fun run_op :: "rounding \<Rightarrow> AILLEEngine \<Rightarrow> engine_op \<Rightarrow> AILLEEngine option" where
  "run_op rnd e (MakeDecision now signals) = map_option snd (makeDecision rnd e now signals)"
| "run_op rnd e Reset = Some (reset e)"
| "run_op rnd e (SetConfig cfg) = Some (setConfig e cfg)"

fun run_ops :: "rounding \<Rightarrow> AILLEEngine \<Rightarrow> engine_op list \<Rightarrow> AILLEEngine option" where
  "run_ops rnd e [] = Some e"
| "run_ops rnd e (c # cs) =
     (case run_op rnd e c of None \<Rightarrow> None | Some e' \<Rightarrow> run_ops rnd e' cs)"

fun changes_config :: "engine_op \<Rightarrow> bool" where
  "changes_config (SetConfig cfg) = True"
| "changes_config c = False"

section \<open>The audit logger of aille.hpp\<close>

record AuditRecord =
  rec_timestamp_ns :: "64 word"
  decision_id :: "64 word"
  rec_status :: DecisionStatus
  rec_final_value :: real
  rec_confidence :: real
  rec_models_agreed :: int
  rec_fallback_used :: bool
  rec_reasoning :: string
  symbol :: string
  strategy_id :: string
  hash :: string
  prev_hash :: string

definition AuditRecord_init :: AuditRecord where
  "AuditRecord_init =
     \<lparr>rec_timestamp_ns = 0, decision_id = 0, rec_status = DECISION_VALID,
      rec_final_value = 0, rec_confidence = 0, rec_models_agreed = 0,
      rec_fallback_used = False, rec_reasoning = [], symbol = [], strategy_id = [],
      hash = [], prev_hash = []\<rparr>"

text \<open>
  What the logger takes from the C++ library and the platform: the text that
  \<open>operator<<\<close> prints for a \<open>float\<close>, \<open>std::hash<std::string>\<close> (a 64-bit \<open>size_t\<close>),
  and \<open>strftime\<close> of \<open>gmtime\<close> with the format of the log, given the seconds. Every
  theorem below holds for every choice of the three.
\<close>

record platform =
  float_str :: "real \<Rightarrow> string"
  hasher :: "string \<Rightarrow> 64 word"
  fmt_time :: "64 word \<Rightarrow> string"

text \<open>\<open>std::hex << std::setfill('0') << std::setw(16)\<close> of a 64-bit value: 16 digits.\<close>

definition hex16 :: "64 word \<Rightarrow> string" where
  "hex16 h =
     map (\<lambda>i. ''0123456789abcdef'' ! unat (drop_bit (4 * (15 - i)) h AND 15)) [0..<16]"

definition computeHash :: "platform \<Rightarrow> AuditRecord \<Rightarrow> string" where
  "computeHash p r =
     (let ss = digits (unat (rec_timestamp_ns r)) @ digits (unat (decision_id r))
                 @ float_str p (rec_final_value r) @ float_str p (rec_confidence r)
                 @ rec_reasoning r @ prev_hash r;
          h = hasher p ss
      in hex16 h)"

definition statusToString :: "DecisionStatus \<Rightarrow> string" where
  "statusToString s =
     (case s of
        DECISION_VALID \<Rightarrow> ''VALID''
      | REJECTED_LOW_CONFIDENCE \<Rightarrow> ''REJECTED_CONF''
      | REJECTED_NO_CONSENSUS \<Rightarrow> ''REJECTED_CONSENSUS''
      | FALLBACK_ACTIVATED \<Rightarrow> ''FALLBACK''
      | ERROR_NO_MODELS \<Rightarrow> ''ERROR'')"

text \<open>
  The \<open>std::ofstream\<close> of the logger: whether it is open, its \<open>failbit\<close>, and the
  pieces of text written through it, in order. An insertion into a stream whose
  \<open>failbit\<close> is set writes nothing. A write that the operating system refuses is not
  modelled.
\<close>

record ofstream =
  is_open :: bool
  failbit :: bool
  written :: "string list"

definition ofstream_init :: ofstream where
  "ofstream_init = \<lparr>is_open = False, failbit = False, written = []\<rparr>"

definition insert_text :: "ofstream \<Rightarrow> string \<Rightarrow> ofstream" where
  "insert_text f s = (if failbit f then f else f\<lparr>written := written f @ [s]\<rparr>)"

record AuditLogger =
  log_file :: ofstream
  audit_trail :: "AuditRecord list"
  next_decision_id :: "64 word"
  last_hash :: string

text \<open>The default constructor.\<close>

definition AuditLogger_init :: AuditLogger where
  "AuditLogger_init =
     \<lparr>log_file = ofstream_init, audit_trail = [], next_decision_id = 1,
      last_hash = ''0000000000000000''\<rparr>"

text \<open>
  \<open>open(filename)\<close>. What the file system answers is an input: \<open>OpenFails\<close>, or
  \<open>OpenOk at_start\<close> with \<open>at_start\<close> telling whether \<open>tellp()\<close> is 0. \<open>open\<close> on a
  stream that is open already fails and sets \<open>failbit\<close>, the stream stays open and
  \<open>tellp()\<close> is \<open>-1\<close>. The result is the \<open>bool\<close> that \<open>open\<close> returns and the logger
  after the call.
\<close>

datatype open_outcome = OpenFails | OpenOk bool

definition csv_header :: string where
  "csv_header =
     ''timestamp,id,status,value,conf,models,fallback,reasoning,symbol,strategy,hash,prev_hash''
       @ [CHR 0x0A]"

definition open_file :: "open_outcome \<Rightarrow> AuditLogger \<Rightarrow> bool \<times> AuditLogger" where
  "open_file outcome lg =
     (let f = log_file lg in
      if is_open f then (True, lg\<lparr>log_file := f\<lparr>failbit := True\<rparr>\<rparr>)
      else
        (case outcome of
           OpenFails \<Rightarrow> (False, lg\<lparr>log_file := f\<lparr>failbit := True\<rparr>\<rparr>)
         | OpenOk at_start \<Rightarrow>
             (let f = f\<lparr>is_open := True, failbit := False\<rparr> in
              (True, lg\<lparr>log_file := (if at_start then insert_text f csv_header else f)\<rparr>))))"

text \<open>The constructor \<open>AuditLogger(filename)\<close>: it drops the result of \<open>open\<close>.\<close>

definition AuditLogger_file :: "open_outcome \<Rightarrow> AuditLogger" where
  "AuditLogger_file outcome = snd (open_file outcome AuditLogger_init)"

definition close_file :: "AuditLogger \<Rightarrow> AuditLogger" where
  "close_file lg =
     (if is_open (log_file lg) then lg\<lparr>log_file := (log_file lg)\<lparr>is_open := False\<rparr>\<rparr> else lg)"

text \<open>The line that \<open>logDecision\<close> writes for a record.\<close>

definition csv_row :: "platform \<Rightarrow> AuditRecord \<Rightarrow> string" where
  "csv_row p r =
     fmt_time p (rec_timestamp_ns r div 1000000000) @ '','' @ digits (unat (decision_id r))
       @ '','' @ statusToString (rec_status r) @ '','' @ float_str p (rec_final_value r)
       @ '','' @ float_str p (rec_confidence r) @ '','' @ to_string (rec_models_agreed r)
       @ '','' @ (if rec_fallback_used r then ''true'' else ''false'') @ '','' @ [CHR 0x22]
       @ rec_reasoning r @ [CHR 0x22] @ '','' @ symbol r @ '','' @ strategy_id r @ '',''
       @ hash r @ '','' @ prev_hash r @ [CHR 0x0A]"

text \<open>
  \<open>logDecision\<close> returns \<open>void\<close>: the model returns the unit value, which is all that
  the caller gets from the call, and the logger after the call.
\<close>

definition logDecision ::
  "platform \<Rightarrow> AuditLogger \<Rightarrow> Decision \<Rightarrow> string \<Rightarrow> string \<Rightarrow> unit \<times> AuditLogger" where
  "logDecision p lg d symbol' strategy =
     (let r = AuditRecord_init
                \<lparr>rec_timestamp_ns := timestamp_ns d,
                 decision_id := next_decision_id lg,
                 rec_status := status d,
                 rec_final_value := final_value d,
                 rec_confidence := confidence d,
                 rec_models_agreed := models_agreed d,
                 rec_fallback_used := fallback_used d,
                 rec_reasoning := reasoning d,
                 symbol := symbol',
                 strategy_id := strategy,
                 prev_hash := last_hash lg\<rparr>;
          r = r\<lparr>hash := computeHash p r\<rparr>;
          lg = lg\<lparr>next_decision_id := next_decision_id lg + 1,
                 last_hash := hash r,
                 audit_trail := audit_trail lg @ [r]\<rparr>
      in if is_open (log_file lg) then
           ((), lg\<lparr>log_file := insert_text (log_file lg) (csv_row p r)\<rparr>)
         else ((), lg))"

fun verifyIntegrity_loop :: "string \<Rightarrow> AuditRecord list \<Rightarrow> bool" where
  "verifyIntegrity_loop expected [] = True"
| "verifyIntegrity_loop expected (r # rs) =
     (if prev_hash r \<noteq> expected then False else verifyIntegrity_loop (hash r) rs)"

definition verifyIntegrity :: "AuditLogger \<Rightarrow> bool" where
  "verifyIntegrity lg =
     (if audit_trail lg = [] then True
      else verifyIntegrity_loop ''0000000000000000'' (audit_trail lg))"

text \<open>A sequence of \<open>logDecision\<close> calls on one logger, each with its arguments.\<close>

definition logDecisions ::
  "platform \<Rightarrow> AuditLogger \<Rightarrow> (Decision \<times> string \<times> string) list \<Rightarrow> AuditLogger" where
  "logDecisions p lg calls =
     foldl (\<lambda>lg (d, symbol', strategy). snd (logDecision p lg d symbol' strategy)) lg calls"

text \<open>
  Writing \<open>v\<close> to the \<open>final_value\<close> of the stored record at index \<open>i\<close>, every other
  field and every other record as it was.
\<close>

definition tamper_final_value :: "AuditLogger \<Rightarrow> nat \<Rightarrow> real \<Rightarrow> AuditLogger" where
  "tamper_final_value lg i v =
     lg\<lparr>audit_trail := (audit_trail lg)[i := (audit_trail lg ! i)\<lparr>rec_final_value := v\<rparr>]\<rparr>"

section \<open>The record digest of aille\_audit.cpp\<close>

text \<open>
  The \<open>AuditRecord\<close> of aille\_audit.cpp has two more fields, \<open>contributing_models\<close> and
  \<open>user_id\<close>, and its \<open>computeHash\<close> also prints \<open>models_agreed\<close>. Its \<open>logDecision\<close> and
  \<open>verifyIntegrity\<close> are those of aille.hpp with the two fields copied along.
\<close>

record AuditRecord_cpp =
  cpp_timestamp_ns :: "64 word"
  cpp_decision_id :: "64 word"
  cpp_status :: DecisionStatus
  cpp_final_value :: real
  cpp_confidence :: real
  cpp_models_agreed :: int
  cpp_fallback_used :: bool
  cpp_reasoning :: string
  cpp_contributing_models :: "32 word list"
  cpp_symbol :: string
  cpp_strategy_id :: string
  cpp_user_id :: string
  cpp_hash :: string
  cpp_prev_hash :: string

definition computeHash_cpp :: "platform \<Rightarrow> AuditRecord_cpp \<Rightarrow> string" where
  "computeHash_cpp p r =
     (let ss = digits (unat (cpp_timestamp_ns r)) @ digits (unat (cpp_decision_id r))
                 @ float_str p (cpp_final_value r) @ float_str p (cpp_confidence r)
                 @ to_string (cpp_models_agreed r) @ cpp_reasoning r @ cpp_prev_hash r;
          hash_val = hasher p ss
      in hex16 hash_val)"

section \<open>Example data\<close>

text \<open>\<open>ModelSignal(v, c, id)\<close>, its time stamp being the clock reading \<open>t\<close>.\<close>

definition ModelSignal_init :: "real \<Rightarrow> real \<Rightarrow> 32 word \<Rightarrow> 64 word \<Rightarrow> ModelSignal" where
  "ModelSignal_init v c id' t =
     \<lparr>sig_value = v, sig_confidence = c, sig_timestamp_ns = t, model_id = id'\<rparr>"

definition agreeing_signals :: "ModelSignal list" where
  "agreeing_signals =
     [ModelSignal_init (5 / 100) (9 / 10) 0 0, ModelSignal_init (4 / 100) (8 / 10) 1 0,
      ModelSignal_init (3 / 100) (85 / 100) 2 0]"

definition split_signals :: "ModelSignal list" where
  "split_signals =
     [ModelSignal_init (5 / 100) (9 / 10) 0 0, ModelSignal_init (- (4 / 100)) (8 / 10) 1 0]"

definition weak_signals :: "ModelSignal list" where
  "weak_signals =
     [ModelSignal_init (5 / 100) (1 / 10) 0 0, ModelSignal_init (4 / 100) (2 / 10) 1 0]"

text \<open>Signals whose values and running sums are floats.\<close>

definition dyadic_signals :: "ModelSignal list" where
  "dyadic_signals =
     [ModelSignal_init (1 / 2) (9 / 10) 0 0, ModelSignal_init (1 / 4) (8 / 10) 1 0,
      ModelSignal_init (1 / 8) (85 / 100) 2 0]"

text \<open>
  Two of three signals agree in sign, and the threshold is the float \<open>2.0f / 3.0f\<close>,
  which lies above two thirds.
\<close>

definition two_of_three_signals :: "ModelSignal list" where
  "two_of_three_signals =
     [ModelSignal_init (1 / 2) (9 / 10) 0 0, ModelSignal_init (1 / 4) (9 / 10) 1 0,
      ModelSignal_init (- (3 / 4)) (9 / 10) 2 0]"

definition two_thirds_config :: AILLEConfig where
  "two_thirds_config =
     AILLEConfig_init\<lparr>sign_agreement_threshold := binary32 (binary32 2 / binary32 3)\<rparr>"

text \<open>
  A buffer whose float running sum is 0 and whose exact sum is negative: the second
  value is lost when it is added to 1.
\<close>

definition cancelling_buffer :: "real list" where
  "cancelling_buffer = [1, - (1 / 2 ^ 26), - 1]"

text \<open>
  Three valid decisions under the default window of 50, a change to a window of 2, and
  a batch that the safety layer rejects.
\<close>

definition shrink_ops :: "engine_op list" where
  "shrink_ops =
     [MakeDecision 1 dyadic_signals, MakeDecision 2 dyadic_signals,
      MakeDecision 3 dyadic_signals,
      SetConfig (AILLEConfig_init\<lparr>fallback_window_size := 2\<rparr>),
      MakeDecision 4 weak_signals]"

definition mixed_signals :: "ModelSignal list" where
  "mixed_signals =
     [ModelSignal_init (5 / 100) (9 / 10) 0 0, ModelSignal_init (4 / 100) (3 / 10) 1 0,
      ModelSignal_init (3 / 100) (1 / 10) 2 0]"

text \<open>
  A platform to evaluate on: a \<open>float\<close> printed as its number of millionths, a
  polynomial string hash, the seconds printed as a number.
\<close>

definition demo_platform :: platform where
  "demo_platform =
     \<lparr>float_str = (\<lambda>x. to_string \<lfloor>x * 1000000\<rfloor>),
      hasher = (\<lambda>s. foldl (\<lambda>h c. 31 * h + of_char c) 7 s),
      fmt_time = (\<lambda>t. digits (unat t))\<rparr>"

definition valid_decision :: Decision where
  "valid_decision =
     \<lparr>final_value = 1 / 2, status = DECISION_VALID, confidence = 85 / 100, models_agreed = 3,
      fallback_used = False, timestamp_ns = 17, contributing_models = [0, 1, 2],
      reasoning = ''Consensus: 3 models''\<rparr>"

definition rejected_decision :: Decision where
  "rejected_decision =
     \<lparr>final_value = 1 / 10, status = REJECTED_NO_CONSENSUS, confidence = 2 / 10,
      models_agreed = 1, fallback_used = True, timestamp_ns = 18, contributing_models = [],
      reasoning = ''No consensus - fallback''\<rparr>"

definition two_calls :: "(Decision \<times> string \<times> string) list" where
  "two_calls = [(valid_decision, ''DEMO'', ''s1''), (rejected_decision, ''DEMO'', ''s1'')]"

text \<open>Records that differ only in fields that the digest does not read.\<close>

definition stored_record :: AuditRecord where
  "stored_record =
     \<lparr>rec_timestamp_ns = 17, decision_id = 1, rec_status = DECISION_VALID,
      rec_final_value = 1 / 2, rec_confidence = 85 / 100, rec_models_agreed = 3,
      rec_fallback_used = False, rec_reasoning = ''Consensus: 3 models'', symbol = ''DEMO'',
      strategy_id = ''s1'', hash = ''298605b0b7d0ed78'', prev_hash = ''0000000000000000''\<rparr>"

definition relabelled_record :: AuditRecord where
  "relabelled_record =
     \<lparr>rec_timestamp_ns = 17, decision_id = 1, rec_status = REJECTED_NO_CONSENSUS,
      rec_final_value = 1 / 2, rec_confidence = 85 / 100, rec_models_agreed = 0,
      rec_fallback_used = True, rec_reasoning = ''Consensus: 3 models'', symbol = ''OTHER'',
      strategy_id = ''s2'', hash = ''298605b0b7d0ed78'', prev_hash = ''0000000000000000''\<rparr>"

definition stored_record_cpp :: AuditRecord_cpp where
  "stored_record_cpp =
     \<lparr>cpp_timestamp_ns = 17, cpp_decision_id = 1, cpp_status = DECISION_VALID,
      cpp_final_value = 1 / 2, cpp_confidence = 85 / 100, cpp_models_agreed = 3,
      cpp_fallback_used = False, cpp_reasoning = ''Consensus: 3 models'',
      cpp_contributing_models = [0, 1, 2], cpp_symbol = ''DEMO'', cpp_strategy_id = ''s1'',
      cpp_user_id = ''u1'', cpp_hash = [], cpp_prev_hash = ''0000000000000000''\<rparr>"

definition relabelled_record_cpp :: AuditRecord_cpp where
  "relabelled_record_cpp =
     \<lparr>cpp_timestamp_ns = 17, cpp_decision_id = 1, cpp_status = REJECTED_NO_CONSENSUS,
      cpp_final_value = 1 / 2, cpp_confidence = 85 / 100, cpp_models_agreed = 3,
      cpp_fallback_used = True, cpp_reasoning = ''Consensus: 3 models'',
      cpp_contributing_models = [], cpp_symbol = ''OTHER'', cpp_strategy_id = ''s2'',
      cpp_user_id = ''u2'', cpp_hash = [], cpp_prev_hash = ''0000000000000000''\<rparr>"

section \<open>Auxiliary facts about the loops and the casts\<close>

lemma uint_scast_32_64: "uint (scast (w :: 32 word) :: 64 word) = take_bit 64 (sint w)"
proof -
  have "(scast w :: 64 word) = word_of_int (sint w)"
    by (rule scast_eq)
  then have "uint (scast w :: 64 word) = uint (word_of_int (sint w) :: 64 word)"
    by (rule arg_cong)
  also have "\<dots> = take_bit LENGTH(64) (sint w)"
    by (rule uint_word_of_int_eq)
  finally show ?thesis by simp
qed

lemma size_t_of_int_nonneg:
  assumes "0 \<le> sint (w :: 32 word)"
  shows "size_t_of_int w = nat (sint w)"
proof -
  have "sint w < 2 ^ (LENGTH(32) - 1)"
    by (rule sint_lt)
  also have "\<dots> < (2 ^ 64 :: int)"
    by simp
  finally have "take_bit 64 (sint w) = sint w"
    using assms by (simp add: take_bit_int_eq_self)
  then have "uint (scast w :: 64 word) = sint w"
    by (simp only: uint_scast_32_64)
  then show ?thesis
    by (simp add: size_t_of_int_def unat_eq_nat_uint)
qed

lemma size_t_of_int_neg:
  assumes "sint (w :: 32 word) < 0"
  shows "size_t_of_int w = nat (2 ^ 64 + sint w)"
proof -
  have "- (2 ^ (LENGTH(32) - 1)) \<le> sint w"
    by (rule sint_ge)
  then have b: "0 \<le> sint w + 2 ^ 64"
    by simp
  from assms have c: "sint w + 2 ^ 64 < 2 ^ 64"
    by simp
  have "take_bit 64 (sint w) = sint w mod 2 ^ 64"
    by (rule take_bit_eq_mod)
  also have "\<dots> = (sint w + 2 ^ 64) mod 2 ^ 64"
    by simp
  also have "\<dots> = sint w + 2 ^ 64"
    using b c by (rule mod_pos_pos_trivial)
  finally have "uint (scast w :: 64 word) = sint w + 2 ^ 64"
    by (simp only: uint_scast_32_64)
  then show ?thesis
    by (simp add: size_t_of_int_def unat_eq_nat_uint add.commute)
qed

lemma foldl_values:
  "foldl (\<lambda>vs sg. vs @ [sig_value sg]) acc xs = acc @ map sig_value xs"
  by (induction xs arbitrary: acc) simp_all

lemma foldl_count:
  "foldl (\<lambda>n val. if P val then n + 1 else n) (a :: int) xs = a + int (length (filter P xs))"
  by (induction xs arbitrary: a) simp_all

lemma foldl_sum_count:
  "foldl (\<lambda>(sum, count) sg. if P sg then (rnd (sum + sig_value sg), count + 1) else (sum, count))
     (a :: real, b :: int) xs =
   (foldl (\<lambda>sum val. rnd (sum + val)) a (map sig_value (filter P xs)),
    b + int (length (filter P xs)))"
  by (induction xs arbitrary: a b) simp_all

lemma foldl_conf_ids:
  "foldl (\<lambda>(total_conf, contributing) sg.
            (total_conf + sig_confidence sg, contributing @ [model_id sg])) (a :: real, b) xs =
   (a + sum_list (map sig_confidence xs), b @ map model_id xs)"
  by (induction xs arbitrary: a b) simp_all

lemma length_filter_map:
  "length (filter P (map f xs)) = length (filter (\<lambda>x. P (f x)) xs)"
  by (induction xs) simp_all



lemma pop_front_while_drop: "pop_front_while window buf = drop (length buf - window) buf"
proof (induction window buf rule: pop_front_while.induct)
  case (1 window buf)
  show ?case
  proof (cases "length buf > window")
    case True
    then have "buf \<noteq> []" by auto
    then obtain x xs where b: "buf = x # xs" by (cases buf) auto
    from True b have "length buf - window = Suc (length xs - window)" by auto
    with True b "1.IH" show ?thesis
      by (subst pop_front_while.simps) simp
  next
    case False
    then show ?thesis
      by (subst pop_front_while.simps) simp
  qed
qed

section \<open>Evaluating the rounding of single precision\<close>

lemma binary32_eval:
  assumes "2 ^ 23 \<le> \<bar>x\<bar> * 2 ^ k" and "\<bar>x\<bar> * 2 ^ k < 2 ^ 24" and "k \<le> 149"
  shows "binary32 x = of_int (round_half_even (x * 2 ^ k)) / 2 ^ k"
proof -
  have p: "(0 :: real) < 2 ^ k"
    by simp
  from assms(1) p have x0: "x \<noteq> 0"
    by auto
  then have ax: "0 < \<bar>x\<bar>"
    by simp
  have lo: "2 powr (real_of_int (23 - int k)) \<le> \<bar>x\<bar>"
  proof -
    have "2 powr (real_of_int (23 - int k)) = 2 powr (23 - real k)"
      by simp
    also have "\<dots> = 2 powr 23 / 2 powr real k"
      by (rule powr_diff)
    also have "\<dots> = 2 ^ 23 / 2 ^ k"
      by (simp add: powr_realpow)
    also have "\<dots> \<le> \<bar>x\<bar>"
      using assms(1) p by (simp add: divide_le_eq)
    finally show ?thesis .
  qed
  have hi: "\<bar>x\<bar> < 2 powr (real_of_int (23 - int k + 1))"
  proof -
    have "2 powr (real_of_int (23 - int k + 1)) = 2 powr (24 - real k)"
      by simp
    also have "\<dots> = 2 powr 24 / 2 powr real k"
      by (rule powr_diff)
    also have "\<dots> = 2 ^ 24 / 2 ^ k"
      by (simp add: powr_realpow)
    finally have "2 powr (real_of_int (23 - int k + 1)) = 2 ^ 24 / 2 ^ k" .
    moreover have "\<bar>x\<bar> < 2 ^ 24 / 2 ^ k"
      using assms(2) p by (simp add: less_divide_eq)
    ultimately show ?thesis
      by simp
  qed
  have fl: "\<lfloor>log 2 \<bar>x\<bar>\<rfloor> = 23 - int k"
    using lo hi ax by (simp add: floor_log_eq_powr_iff)
  from assms(3) have mx: "max (23 - int k) (- 126) = 23 - int k"
    by simp
  have ulp: "2 powr real_of_int (23 - int k - 23) = 1 / 2 ^ k"
    by (simp add: powr_minus_divide powr_realpow)
  have "binary32 x = of_int (round_half_even (x / (1 / 2 ^ k))) * (1 / 2 ^ k)"
    using x0 by (simp only: binary32_def Let_def fl mx ulp if_False)
  then show ?thesis
    by simp
qed

lemma binary32_0: "binary32 0 = 0"
  by (simp add: binary32_def)

lemma binary32_small_integers:
  "binary32 1 = 1" "binary32 2 = 2" "binary32 3 = 3"
  using binary32_eval [of 1 23] binary32_eval [of 2 22] binary32_eval [of 3 22]
  by (simp_all add: round_half_even_def)

lemma binary32_dyadic:
  "binary32 (1 / 2) = 1 / 2" "binary32 (1 / 4) = 1 / 4" "binary32 (3 / 4) = 3 / 4"
  "binary32 (7 / 8) = 7 / 8" "binary32 (3 / 8) = 3 / 8"
  "binary32 (- (1 / 2)) = - (1 / 2)" "binary32 (- (1 / 4)) = - (1 / 4)"
  "binary32 (- (1 / 8)) = - (1 / 8)"
  using binary32_eval [of "1 / 2" 24] binary32_eval [of "1 / 4" 25]
    binary32_eval [of "3 / 4" 24] binary32_eval [of "7 / 8" 24] binary32_eval [of "3 / 8" 25]
    binary32_eval [of "- (1 / 2)" 24] binary32_eval [of "- (1 / 4)" 25]
    binary32_eval [of "- (1 / 8)" 26]
  by (simp_all add: round_half_even_def)

text \<open>Two thirds is rounded up, \<open>1 - 2 ^ -26\<close> is rounded to 1.\<close>

lemma binary32_two_thirds: "binary32 (2 / 3) = 11184811 / 16777216"
  using binary32_eval [of "2 / 3" 24] by (simp add: round_half_even_def)

lemma binary32_below_one:
  "binary32 (1 - 1 / 2 ^ 26) = 1"
  "binary32 (67108863 / 67108864) = 1"
  using binary32_eval [of "1 - 1 / 2 ^ 26" 24] by (simp_all add: round_half_even_def)

lemma binary32_seven_24: "binary32 (7 / 24) = 9786709 / 33554432"
  using binary32_eval [of "7 / 24" 25] by (simp add: round_half_even_def)

text \<open>The floats 0.2f, 0.3f and 0.4f, their running sum and its third.\<close>

lemma binary32_tenths:
  "binary32 (2 / 10) = 13421773 / 67108864"
  "binary32 (3 / 10) = 10066330 / 33554432"
  "binary32 (4 / 10) = 13421773 / 33554432"
  using binary32_eval [of "2 / 10" 26] binary32_eval [of "3 / 10" 25]
    binary32_eval [of "4 / 10" 25]
  by (simp_all add: round_half_even_def)

lemma binary32_tenths_sum:
  "binary32 (13421773 / 67108864) = 13421773 / 67108864"
  "binary32 (13421773 / 67108864 + 10066330 / 33554432) = 1 / 2"
  "binary32 (1 / 2 + 13421773 / 33554432) = 15099494 / 16777216"
  "binary32 (15099494 / 16777216 / 3) = 10066329 / 33554432"
  "binary32 (33554433 / 67108864) = 1 / 2"
  "binary32 (30198989 / 33554432) = 7549747 / 8388608"
  "binary32 (7549747 / 25165824) = 10066329 / 33554432"
  using binary32_eval [of "13421773 / 67108864" 26]
    binary32_eval [of "13421773 / 67108864 + 10066330 / 33554432" 24]
    binary32_eval [of "1 / 2 + 13421773 / 33554432" 24]
    binary32_eval [of "15099494 / 16777216 / 3" 25]
  by (simp_all add: round_half_even_def)


lemma float_mean_tenths:
  "calculateFallbackValue binary32
     \<lparr>config = cfg, fallback_buffer = [binary32 (2 / 10), binary32 (3 / 10), binary32 (4 / 10)]\<rparr>
     = 10066329 / 2 ^ 25"
  apply (simp only: binary32_tenths)
  apply (simp add: calculateFallbackValue_def float_sum_def binary32_tenths_sum
      binary32_small_integers)
  done

section \<open>Properties of the safety layer\<close>

lemma applySafetyLayer_loop_acc:
  "applySafetyLayer_loop cfg signals valid = valid @ applySafetyLayer_loop cfg signals []"
proof (induction signals arbitrary: valid)
  case Nil
  show ?case by simp
next
  case (Cons sg signals)
  have a: "applySafetyLayer_loop cfg signals (valid @ [x]) =
      valid @ applySafetyLayer_loop cfg signals [x]" for x
    using Cons.IH [of "valid @ [x]"] Cons.IH [of "[x]"] by simp
  show ?case
    using Cons.IH [of valid] by (simp add: a)
qed

lemma applySafetyLayer_Nil: "applySafetyLayer cfg [] = []"
  by (simp add: applySafetyLayer_def)

lemma applySafetyLayer_Cons:
  "applySafetyLayer cfg (sg # signals) =
     (if sig_confidence sg \<ge> min_confidence_threshold cfg then
        sg # applySafetyLayer cfg signals
      else if sig_confidence sg \<ge> grace_confidence_threshold cfg then
        sg\<lparr>sig_confidence := sig_confidence sg * (8 / 10)\<rparr> # applySafetyLayer cfg signals
      else applySafetyLayer cfg signals)"
  using applySafetyLayer_loop_acc [of cfg signals "[sg]"]
    applySafetyLayer_loop_acc
      [of cfg signals "[sg\<lparr>sig_confidence := sig_confidence sg * (8 / 10)\<rparr>]"]
  by (simp add: applySafetyLayer_def)

text \<open>
  C5. The safety filter handles each signal on its own and keeps the input order: a
  signal whose confidence reaches \<open>min_confidence_threshold\<close> is kept as it is; otherwise
  one whose confidence reaches \<open>grace_confidence_threshold\<close> is kept with its confidence
  multiplied by 0.8 and every other field as it was; any other signal is dropped. The
  result is empty exactly when every signal is below both thresholds.
\<close>

theorem applySafetyLayer_spec:
  "applySafetyLayer cfg signals =
     List.map_filter
       (\<lambda>sg. if sig_confidence sg \<ge> min_confidence_threshold cfg then Some sg
             else if sig_confidence sg \<ge> grace_confidence_threshold cfg then
               Some \<lparr>sig_value = sig_value sg,
                     sig_confidence = sig_confidence sg * (8 / 10),
                     sig_timestamp_ns = sig_timestamp_ns sg,
                     model_id = model_id sg\<rparr>
             else None)
       signals
   \<and> (applySafetyLayer cfg signals = [] \<longleftrightarrow>
        (\<forall>sg \<in> set signals.
           sig_confidence sg < min_confidence_threshold cfg \<and>
           sig_confidence sg < grace_confidence_threshold cfg))"
proof (induction signals)
  case Nil
  show ?case by (simp add: applySafetyLayer_Nil map_filter_simps)
next
  case (Cons sg signals)
  then show ?case
    by (cases sg) (auto simp add: applySafetyLayer_Cons map_filter_simps not_le)
qed

theorem applySafetyLayer_spec_witness:
  "applySafetyLayer AILLEConfig_init mixed_signals =
     [ModelSignal_init (5 / 100) (9 / 10) 0 0, ModelSignal_init (4 / 100) (24 / 100) 1 0]
   \<and> applySafetyLayer AILLEConfig_init weak_signals = []
   \<and> applySafetyLayer AILLEConfig_init agreeing_signals \<noteq> []"
  using applySafetyLayer_spec [of AILLEConfig_init mixed_signals]
    applySafetyLayer_spec [of AILLEConfig_init weak_signals]
    applySafetyLayer_spec [of AILLEConfig_init agreeing_signals]
  by (simp add: AILLEConfig_init_def mixed_signals_def weak_signals_def agreeing_signals_def
        ModelSignal_init_def map_filter_simps)

section \<open>Properties of the consensus evaluation\<close>

lemma checkConsensus_filter:
  assumes "valid \<noteq> []" and "\<not> length valid < size_t_of_int (min_models_required cfg)"
  shows "checkConsensus rnd cfg valid =
    (let median = sort (map sig_value valid) ! (length valid div 2);
         agreeing = filter (\<lambda>sg. (if sig_value sg \<ge> 0 then 1 else - 1 :: real)
                      = (if median \<ge> 0 then 1 else - 1)) valid;
         agreement_count = int (length agreeing)
     in if rnd (rnd (real_of_int agreement_count) / rnd (real (length valid)))
             \<ge> sign_agreement_threshold cfg \<and>
           agreement_count \<ge> sint (min_models_required cfg)
        then Some (ConsensusReached
               (rnd (float_sum rnd (map sig_value agreeing) / rnd (real_of_int agreement_count)))
               agreement_count)
        else Some (ConsensusFailed agreement_count))"
  using assms
  by (simp add: checkConsensus_def Let_def foldl_values foldl_count
      foldl_sum_count [where rnd = rnd] length_filter_map comp_def float_sum_def
      split del: if_split cong: if_cong)

lemma sign_real_int:
  "((if (v :: real) \<ge> 0 then 1 else - 1 :: real) = (if (m :: real) \<ge> 0 then 1 else - 1)) =
   ((if v \<ge> 0 then 1 else - 1 :: int) = (if m \<ge> 0 then 1 else - 1))"
  by simp

text \<open>
  C3, as the code has it. With \<open>min_models_required\<close> at least 1 (its range in the data
  model) and for every rounding of the float operations: a batch of fewer signals fails
  with \<open>models_agreed = 0\<close>; otherwise the median is the element at index \<open>n div 2\<close> of
  the sorted values, its sign is +1 when it is at least 0 and -1 otherwise,
  \<open>agreement_count\<close> counts the signals whose value has that sign (0 counts as +1),
  and the evaluation succeeds exactly when the float quotient of \<open>agreement_count\<close> and
  \<open>n\<close> (both converted to \<open>float\<close>) reaches \<open>sign_agreement_threshold\<close> and
  \<open>agreement_count\<close> reaches \<open>min_models_required\<close>; it then returns the float running
  sum of the agreeing signals' values divided in float by their number, and
  \<open>models_agreed = agreement_count\<close> (a failure of the vote reports \<open>agreement_count\<close>
  too).
\<close>

theorem checkConsensus_spec:
  assumes "1 \<le> sint (min_models_required cfg)"
  shows "checkConsensus rnd cfg valid =
    (let n = length valid in
     if int n < sint (min_models_required cfg) then Some (ConsensusFailed 0)
     else
       let median = sort (map sig_value valid) ! (n div 2);
           median_sign = (if median \<ge> 0 then 1 else - 1 :: int);
           agreeing = filter (\<lambda>sg. (if sig_value sg \<ge> 0 then 1 else - 1) = median_sign) valid;
           agreement_count = length agreeing
       in if rnd (rnd (real agreement_count) / rnd (real n)) \<ge> sign_agreement_threshold cfg \<and>
             int agreement_count \<ge> sint (min_models_required cfg)
          then Some (ConsensusReached
                 (rnd (float_sum rnd (map sig_value agreeing) / rnd (real agreement_count)))
                 (int agreement_count))
          else Some (ConsensusFailed (int agreement_count)))"
proof (cases "int (length valid) < sint (min_models_required cfg)")
  case True
  then have "length valid < nat (sint (min_models_required cfg))"
    by linarith
  with True show ?thesis
    using assms by (simp add: checkConsensus_def size_t_of_int_nonneg)
next
  case False
  with assms have n: "valid \<noteq> []" "\<not> length valid < size_t_of_int (min_models_required cfg)"
    by (auto simp add: size_t_of_int_nonneg)
  show ?thesis
    using False
    by (simp only: checkConsensus_filter [OF n] Let_def sign_real_int if_False of_int_of_nat_eq)
qed

lemma two_of_three_consensus:
  "checkConsensus binary32 two_thirds_config two_of_three_signals
     = Some (ConsensusReached (3 / 8) 2)"
  by (simp add: checkConsensus_def two_thirds_config_def two_of_three_signals_def
        AILLEConfig_init_def ModelSignal_init_def size_t_of_int_def Let_def
        binary32_small_integers binary32_dyadic binary32_two_thirds)

theorem checkConsensus_spec_witness:
  "1 \<le> sint (min_models_required two_thirds_config)
   \<and> checkConsensus binary32 two_thirds_config two_of_three_signals
       = Some (ConsensusReached (3 / 8) 2)
   \<and> checkConsensus binary32 AILLEConfig_init split_signals = Some (ConsensusFailed 1)
   \<and> checkConsensus binary32 AILLEConfig_init [ModelSignal_init (5 / 100) (9 / 10) 0 0]
       = Some (ConsensusFailed 0)"
proof -
  have h: "1 \<le> sint (min_models_required two_thirds_config)"
      "1 \<le> sint (min_models_required AILLEConfig_init)"
    by (simp_all add: two_thirds_config_def AILLEConfig_init_def)
  from checkConsensus_spec [OF h(1), of binary32 two_of_three_signals]
  have a: "checkConsensus binary32 two_thirds_config two_of_three_signals
       = Some (ConsensusReached (3 / 8) 2)"
    by (simp add: two_thirds_config_def two_of_three_signals_def AILLEConfig_init_def
          ModelSignal_init_def Let_def float_sum_def
          binary32_small_integers binary32_dyadic binary32_two_thirds)
  from checkConsensus_spec [OF h(2), of binary32 split_signals]
  have b: "checkConsensus binary32 AILLEConfig_init split_signals = Some (ConsensusFailed 1)"
    by (simp add: split_signals_def AILLEConfig_init_def ModelSignal_init_def Let_def
          binary32_small_integers binary32_dyadic)
  from checkConsensus_spec [OF h(2), of binary32 "[ModelSignal_init (5 / 100) (9 / 10) 0 0]"]
  have c: "checkConsensus binary32 AILLEConfig_init [ModelSignal_init (5 / 100) (9 / 10) 0 0]
       = Some (ConsensusFailed 0)"
    by (simp add: AILLEConfig_init_def)
  from h(1) a b c show ?thesis
    by simp
qed

text \<open>
  C3, as the claim has it, fails where the float quotient and the exact quotient lie on
  different sides of the threshold: with the threshold \<open>2.0f / 3.0f\<close> and two of three
  signals agreeing, the float quotient is the threshold itself and the evaluation
  succeeds, while two thirds is below the threshold.
\<close>

theorem checkConsensus_float_quotient:
  "checkConsensus binary32 two_thirds_config two_of_three_signals
     = Some (ConsensusReached (3 / 8) 2)
   \<and> length two_of_three_signals = 3
   \<and> length (filter (\<lambda>sg. sig_value sg \<ge> 0) two_of_three_signals) = 2
   \<and> sort (map sig_value two_of_three_signals) ! (3 div 2) = 1 / 4
   \<and> \<not> (2 :: real) / 3 \<ge> sign_agreement_threshold two_thirds_config"
  using two_of_three_consensus
  by (simp add: two_thirds_config_def two_of_three_signals_def ModelSignal_init_def
        binary32_small_integers binary32_two_thirds)

text \<open>
  Outside the range of the data model. A negative \<open>min_models_required\<close> is cast to a
  size that no batch reaches, so the evaluation fails with \<open>models_agreed = 0\<close>; a
  negative \<open>fallback_window_size\<close> is cast to a size that the buffer never exceeds, so
  nothing is evicted.
\<close>

lemma checkConsensus_negative_min:
  assumes "sint (min_models_required cfg) < 0" and "length valid < 2 ^ 63"
  shows "checkConsensus rnd cfg valid = Some (ConsensusFailed 0)"
proof -
  have "- (2 ^ (LENGTH(32) - 1)) \<le> sint (min_models_required cfg)"
    by (rule sint_ge)
  then have "(2 :: int) ^ 63 \<le> 2 ^ 64 + sint (min_models_required cfg)"
    by simp
  then have "nat (2 ^ 63) \<le> nat (2 ^ 64 + sint (min_models_required cfg))"
    by (rule nat_mono)
  then have "(2 :: nat) ^ 63 \<le> nat (2 ^ 64 + sint (min_models_required cfg))"
    by simp
  with assms show ?thesis
    by (simp add: checkConsensus_def size_t_of_int_neg)
qed

section \<open>Properties of makeDecision\<close>

lemma getFallbackValue_eq:
  "getFallbackValue rnd e =
     (if (if fallback_buffer e = [] then 0
          else rnd (float_sum rnd (fallback_buffer e) / rnd (real (length (fallback_buffer e)))))
           \<ge> 0
      then 1 else - 1) * fallback_position_scale (config e)"
  by (simp add: getFallbackValue_def calculateFallbackValue_def)

lemma checkConsensus_Nil:
  "checkConsensus rnd cfg [] \<noteq> Some (ConsensusReached v m)"
  by (simp add: checkConsensus_def)

lemma checkConsensus_too_few:
  assumes "int (length valid) < sint (min_models_required cfg)"
  shows "checkConsensus rnd cfg valid = Some (ConsensusFailed 0)"
proof -
  from assms have "0 \<le> sint (min_models_required cfg)"
    by linarith
  moreover from assms have "length valid < nat (sint (min_models_required cfg))"
    by linarith
  ultimately show ?thesis
    by (simp add: checkConsensus_def size_t_of_int_nonneg)
qed

lemma makeDecision_low_confidence:
  assumes "signals \<noteq> []" and "applySafetyLayer (config e) signals = []"
  shows "makeDecision rnd e now signals =
         Some (\<lparr>final_value = getFallbackValue rnd e,
                status = REJECTED_LOW_CONFIDENCE, confidence = 1 / 10, models_agreed = 0,
                fallback_used = True, timestamp_ns = now, contributing_models = [],
                reasoning = ''All models failed confidence - fallback''\<rparr>, e)"
  using assms by (simp add: makeDecision_def Decision_init_def Let_def)

lemma makeDecision_no_consensus:
  assumes "applySafetyLayer (config e) signals \<noteq> []"
    and "checkConsensus rnd (config e) (applySafetyLayer (config e) signals) = Some (ConsensusFailed m)"
  shows "makeDecision rnd e now signals =
         Some (\<lparr>final_value = getFallbackValue rnd e,
                status = REJECTED_NO_CONSENSUS, confidence = 2 / 10, models_agreed = m,
                fallback_used = True, timestamp_ns = now, contributing_models = [],
                reasoning = ''No consensus - fallback''\<rparr>, e)"
proof -
  have s: "signals \<noteq> []"
    using assms(1) applySafetyLayer_Nil [of "config e"] by auto
  show ?thesis
    using s assms by (simp add: makeDecision_def Decision_init_def Let_def)
qed

lemma makeDecision_consensus:
  assumes "checkConsensus rnd (config e) (applySafetyLayer (config e) signals)
             = Some (ConsensusReached consensus_value m)"
  shows "makeDecision rnd e now signals =
     Some (\<lparr>final_value = tanh (consensus_value * 100),
            status = DECISION_VALID,
            confidence = sum_list (map sig_confidence (applySafetyLayer (config e) signals))
                           / real (length (applySafetyLayer (config e) signals)),
            models_agreed = m,
            fallback_used = False,
            timestamp_ns = now,
            contributing_models = map model_id (applySafetyLayer (config e) signals),
            reasoning = ''Consensus: '' @ to_string m @ '' models''\<rparr>,
           updateFallbackBuffer e (tanh (consensus_value * 100)))"
proof -
  have v: "applySafetyLayer (config e) signals \<noteq> []"
    using assms checkConsensus_Nil [of rnd "config e" consensus_value m] by auto
  then have s: "signals \<noteq> []"
    using applySafetyLayer_Nil [of "config e"] by auto
  show ?thesis
    using v s assms
    by (simp add: makeDecision_def Decision_init_def foldl_conf_ids smoothPosition_def Let_def)
qed

lemma checkConsensus_nonempty:
  "valid \<noteq> [] \<Longrightarrow> checkConsensus rnd cfg valid \<noteq> None"
  by (simp add: checkConsensus_def Let_def split_def foldl_values)

lemma makeDecision_total:
  "\<exists>d e'. makeDecision rnd e now signals = Some (d, e')"
proof (cases "signals = []")
  case True
  then show ?thesis by (simp add: makeDecision_def)
next
  case False
  show ?thesis
  proof (cases "applySafetyLayer (config e) signals = []")
    case True
    with False show ?thesis
      by (simp add: makeDecision_low_confidence)
  next
    case v: False
    then obtain r where r: "checkConsensus rnd (config e) (applySafetyLayer (config e) signals) = Some r"
      using checkConsensus_nonempty [of "applySafetyLayer (config e) signals" rnd "config e"]
    by auto
    show ?thesis
    proof (cases r)
      case (ConsensusFailed m)
      with v r show ?thesis by (simp add: makeDecision_no_consensus)
    next
      case (ConsensusReached c m)
      with r show ?thesis by (simp add: makeDecision_consensus)
    qed
  qed
qed

text \<open>
  C9. For the empty batch \<open>makeDecision\<close> returns \<open>ERROR_NO_MODELS\<close> with
  \<open>final_value = 0\<close>, \<open>confidence = 0\<close> and \<open>fallback_used = false\<close>; the result does
  not depend on the fallback buffer, and the engine is left as it was.
\<close>

theorem makeDecision_empty:
  "makeDecision rnd e now [] =
     Some (\<lparr>final_value = 0, status = ERROR_NO_MODELS, confidence = 0, models_agreed = 0,
            fallback_used = False, timestamp_ns = now, contributing_models = [],
            reasoning = ''No model inputs''\<rparr>, e)"
  by (simp add: makeDecision_def Decision_init_def)

text \<open>
  C6, as the code has it. For a non-empty batch and every rounding of the float
  operations: when the safety filter removes every signal the decision is
  \<open>REJECTED_LOW_CONFIDENCE\<close> with confidence 0.1, \<open>fallback_used\<close> and \<open>models_agreed =
  0\<close>; when some signal passes and the consensus fails it is \<open>REJECTED_NO_CONSENSUS\<close>
  with confidence 0.2, \<open>fallback_used\<close> and the \<open>models_agreed\<close> that \<open>checkConsensus\<close>
  reported, which is 0 when fewer than \<open>min_models_required\<close> signals passed. In both
  cases \<open>final_value\<close> is the directional fallback: \<open>fallback_position_scale\<close> times the
  sign (+1 for 0, so for the empty buffer) of the mean that \<open>calculateFallbackValue\<close>
  computes, which is the float running sum of the buffer divided in float by its size.
  The engine is left as it was.
\<close>

theorem makeDecision_rejected:
  assumes "signals \<noteq> []"
  shows
   "(applySafetyLayer (config e) signals = [] \<longrightarrow>
       makeDecision rnd e now signals =
         Some (\<lparr>final_value = getFallbackValue rnd e,
                status = REJECTED_LOW_CONFIDENCE, confidence = 1 / 10, models_agreed = 0,
                fallback_used = True, timestamp_ns = now, contributing_models = [],
                reasoning = ''All models failed confidence - fallback''\<rparr>, e))
  \<and> (applySafetyLayer (config e) signals \<noteq> [] \<and>
       checkConsensus rnd (config e) (applySafetyLayer (config e) signals)
         = Some (ConsensusFailed m) \<longrightarrow>
       makeDecision rnd e now signals =
         Some (\<lparr>final_value = getFallbackValue rnd e,
                status = REJECTED_NO_CONSENSUS, confidence = 2 / 10, models_agreed = m,
                fallback_used = True, timestamp_ns = now, contributing_models = [],
                reasoning = ''No consensus - fallback''\<rparr>, e))
  \<and> (int (length (applySafetyLayer (config e) signals))
         < sint (min_models_required (config e)) \<longrightarrow>
       checkConsensus rnd (config e) (applySafetyLayer (config e) signals)
         = Some (ConsensusFailed 0))
  \<and> getFallbackValue rnd e =
       (if (if fallback_buffer e = [] then 0
            else rnd (float_sum rnd (fallback_buffer e)
                        / rnd (real (length (fallback_buffer e))))) \<ge> 0
        then 1 else - 1) * fallback_position_scale (config e)
  \<and> (fallback_buffer e = [] \<longrightarrow> getFallbackValue rnd e = fallback_position_scale (config e))"
proof (intro conjI impI)
  show "getFallbackValue rnd e =
       (if (if fallback_buffer e = [] then 0
            else rnd (float_sum rnd (fallback_buffer e)
                        / rnd (real (length (fallback_buffer e))))) \<ge> 0
        then 1 else - 1) * fallback_position_scale (config e)"
    by (rule getFallbackValue_eq)
next
  assume "fallback_buffer e = []"
  then show "getFallbackValue rnd e = fallback_position_scale (config e)"
    by (simp add: getFallbackValue_def calculateFallbackValue_def)
next
  assume "applySafetyLayer (config e) signals = []"
  with assms show "makeDecision rnd e now signals =
         Some (\<lparr>final_value = getFallbackValue rnd e,
                status = REJECTED_LOW_CONFIDENCE, confidence = 1 / 10, models_agreed = 0,
                fallback_used = True, timestamp_ns = now, contributing_models = [],
                reasoning = ''All models failed confidence - fallback''\<rparr>, e)"
    by (rule makeDecision_low_confidence)
next
  assume "applySafetyLayer (config e) signals \<noteq> [] \<and>
       checkConsensus rnd (config e) (applySafetyLayer (config e) signals)
         = Some (ConsensusFailed m)"
  then show "makeDecision rnd e now signals =
         Some (\<lparr>final_value = getFallbackValue rnd e,
                status = REJECTED_NO_CONSENSUS, confidence = 2 / 10, models_agreed = m,
                fallback_used = True, timestamp_ns = now, contributing_models = [],
                reasoning = ''No consensus - fallback''\<rparr>, e)"
    by (simp add: makeDecision_no_consensus)
next
  assume "int (length (applySafetyLayer (config e) signals))
            < sint (min_models_required (config e))"
  then show "checkConsensus rnd (config e) (applySafetyLayer (config e) signals)
               = Some (ConsensusFailed 0)"
    by (rule checkConsensus_too_few)
qed

lemma applySafetyLayer_examples:
  "applySafetyLayer AILLEConfig_init weak_signals = []"
  "applySafetyLayer AILLEConfig_init split_signals = split_signals"
  "applySafetyLayer AILLEConfig_init agreeing_signals = agreeing_signals"
  "applySafetyLayer AILLEConfig_init dyadic_signals = dyadic_signals"
  by (simp_all add: applySafetyLayer_def AILLEConfig_init_def weak_signals_def
        split_signals_def agreeing_signals_def dyadic_signals_def ModelSignal_init_def)

lemma checkConsensus_examples:
  "checkConsensus binary32 AILLEConfig_init split_signals = Some (ConsensusFailed 1)"
  "checkConsensus binary32 AILLEConfig_init dyadic_signals
     = Some (ConsensusReached (9786709 / 33554432) 3)"
  "checkConsensus exact_arith AILLEConfig_init agreeing_signals
     = Some (ConsensusReached (4 / 100) 3)"
  by (simp_all add: checkConsensus_def AILLEConfig_init_def split_signals_def
        agreeing_signals_def dyadic_signals_def ModelSignal_init_def size_t_of_int_def Let_def
        binary32_small_integers binary32_dyadic binary32_seven_24 exact_arith_def)

lemma getFallbackValue_examples:
  "getFallbackValue binary32 \<lparr>config = AILLEConfig_init, fallback_buffer = [- (1 / 2), 1 / 4]\<rparr>
     = - (1 / 10)"
  "getFallbackValue binary32 \<lparr>config = AILLEConfig_init, fallback_buffer = cancelling_buffer\<rparr>
     = 1 / 10"
  by (simp_all add: getFallbackValue_def calculateFallbackValue_def float_sum_def
        cancelling_buffer_def AILLEConfig_init_def binary32_0 binary32_small_integers
        binary32_dyadic binary32_below_one)

theorem makeDecision_rejected_witness:
  "weak_signals \<noteq> [] \<and> split_signals \<noteq> []
   \<and> makeDecision binary32 \<lparr>config = AILLEConfig_init, fallback_buffer = [- (1 / 2), 1 / 4]\<rparr>
        7 weak_signals =
       Some (\<lparr>final_value = - (1 / 10),
              status = REJECTED_LOW_CONFIDENCE, confidence = 1 / 10, models_agreed = 0,
              fallback_used = True, timestamp_ns = 7, contributing_models = [],
              reasoning = ''All models failed confidence - fallback''\<rparr>,
             \<lparr>config = AILLEConfig_init, fallback_buffer = [- (1 / 2), 1 / 4]\<rparr>)
   \<and> makeDecision binary32 (AILLEEngine_init AILLEConfig_init) 7 split_signals =
       Some (\<lparr>final_value = 1 / 10,
              status = REJECTED_NO_CONSENSUS, confidence = 2 / 10, models_agreed = 1,
              fallback_used = True, timestamp_ns = 7, contributing_models = [],
              reasoning = ''No consensus - fallback''\<rparr>,
             AILLEEngine_init AILLEConfig_init)"
  using makeDecision_rejected
      [where signals = weak_signals and now = 7 and m = 0 and rnd = binary32
         and e = "\<lparr>config = AILLEConfig_init, fallback_buffer = [- (1 / 2), 1 / 4]\<rparr>"]
    makeDecision_rejected
      [where signals = split_signals and now = 7 and m = 1 and rnd = binary32
         and e = "AILLEEngine_init AILLEConfig_init"]
  by (simp add: applySafetyLayer_examples checkConsensus_examples getFallbackValue_examples
        AILLEEngine_init_def)
    (simp add: weak_signals_def split_signals_def AILLEConfig_init_def)

text \<open>
  C6, as the claim has it, fails where the float running sum and the exact sum of the
  buffer differ in sign: for the buffer 1, \<open>-2 ^ -26\<close>, -1 the float sum is 0, so the
  fallback is \<open>+fallback_position_scale\<close>, while the mean of the three values is
  negative and its sign times the scale is \<open>-fallback_position_scale\<close>.
\<close>

theorem getFallbackValue_float_sum:
  "makeDecision binary32 \<lparr>config = AILLEConfig_init, fallback_buffer = cancelling_buffer\<rparr>
     7 weak_signals =
     Some (\<lparr>final_value = 1 / 10,
            status = REJECTED_LOW_CONFIDENCE, confidence = 1 / 10, models_agreed = 0,
            fallback_used = True, timestamp_ns = 7, contributing_models = [],
            reasoning = ''All models failed confidence - fallback''\<rparr>,
           \<lparr>config = AILLEConfig_init, fallback_buffer = cancelling_buffer\<rparr>)
   \<and> sum_list cancelling_buffer / real (length cancelling_buffer) < 0
   \<and> (if sum_list cancelling_buffer / real (length cancelling_buffer) \<ge> 0 then 1 else - 1)
        * fallback_position_scale AILLEConfig_init = - (1 / 10)"
proof -
  have w: "weak_signals \<noteq> []"
    by (simp add: weak_signals_def)
  have a: "applySafetyLayer
      (config \<lparr>config = AILLEConfig_init, fallback_buffer = cancelling_buffer\<rparr>) weak_signals = []"
    by (simp add: applySafetyLayer_examples)
  have s: "sum_list cancelling_buffer / real (length cancelling_buffer) < 0"
    by (simp add: cancelling_buffer_def)
  show ?thesis
    using s
    by (simp add: makeDecision_low_confidence [OF w a] getFallbackValue_examples)
      (simp add: AILLEConfig_init_def)
qed



section \<open>Properties of the fallback buffer\<close>

lemma updateFallbackBuffer_drop:
  assumes "0 \<le> sint (fallback_window_size (config e))"
  shows "updateFallbackBuffer e v =
     e\<lparr>fallback_buffer :=
         drop (Suc (length (fallback_buffer e)) - nat (sint (fallback_window_size (config e))))
           (fallback_buffer e @ [v])\<rparr>"
  using assms by (simp add: updateFallbackBuffer_def pop_front_while_drop size_t_of_int_nonneg)

lemma updateFallbackBuffer_config: "config (updateFallbackBuffer e v) = config e"
  by (simp add: updateFallbackBuffer_def)

lemma updateFallbackBuffer_length:
  assumes "0 \<le> sint (fallback_window_size (config e))"
  shows "length (fallback_buffer (updateFallbackBuffer e v))
           \<le> nat (sint (fallback_window_size (config e)))"
  using assms by (simp add: updateFallbackBuffer_drop)

lemma makeDecision_engine:
  assumes "makeDecision rnd e now signals = Some (d, e')"
  shows "(status d \<noteq> DECISION_VALID \<and> e' = e) \<or>
         (status d = DECISION_VALID \<and> e' = updateFallbackBuffer e (final_value d))"
proof (cases "signals = []")
  case True
  with assms show ?thesis by (auto simp add: makeDecision_def)
next
  case False
  show ?thesis
  proof (cases "applySafetyLayer (config e) signals = []")
    case True
    with False assms show ?thesis
      by (auto simp add: makeDecision_low_confidence)
  next
    case v: False
    then obtain r
      where r: "checkConsensus rnd (config e) (applySafetyLayer (config e) signals) = Some r"
      using checkConsensus_nonempty [of "applySafetyLayer (config e) signals" rnd "config e"]
      by auto
    show ?thesis
    proof (cases r)
      case (ConsensusFailed m)
      with v r assms show ?thesis by (auto simp add: makeDecision_no_consensus)
    next
      case (ConsensusReached c m)
      with r assms show ?thesis by (auto simp add: makeDecision_consensus)
    qed
  qed
qed

text \<open>While the configuration is not changed, the window bounds the buffer.\<close>

lemma run_op_invariant:
  assumes "0 \<le> sint (fallback_window_size (config e))"
    and "length (fallback_buffer e) \<le> nat (sint (fallback_window_size (config e)))"
    and "\<not> changes_config c"
  shows "\<exists>e'. run_op rnd e c = Some e' \<and> config e' = config e \<and>
           length (fallback_buffer e') \<le> nat (sint (fallback_window_size (config e)))"
proof (cases c)
  case (MakeDecision now signals)
  obtain d e' where m: "makeDecision rnd e now signals = Some (d, e')"
    using makeDecision_total by blast
  from makeDecision_engine [OF m] assms
  have "config e' = config e \<and>
      length (fallback_buffer e') \<le> nat (sint (fallback_window_size (config e)))"
    by (auto simp add: updateFallbackBuffer_config updateFallbackBuffer_length)
  with m MakeDecision show ?thesis by simp
next
  case Reset
  then show ?thesis by (simp add: reset_def)
next
  case (SetConfig cfg')
  with assms(3) show ?thesis by simp
qed

lemma run_ops_invariant:
  assumes "0 \<le> sint (fallback_window_size (config e))"
    and "length (fallback_buffer e) \<le> nat (sint (fallback_window_size (config e)))"
    and "\<forall>c \<in> set cs. \<not> changes_config c"
  shows "\<exists>e'. run_ops rnd e cs = Some e' \<and> config e' = config e \<and>
           length (fallback_buffer e') \<le> nat (sint (fallback_window_size (config e)))"
  using assms
proof (induction cs arbitrary: e)
  case Nil
  then show ?case by simp
next
  case (Cons c cs)
  from Cons.prems(3) have c: "\<not> changes_config c" and cs: "\<forall>c \<in> set cs. \<not> changes_config c"
    by simp_all
  from run_op_invariant [OF Cons.prems(1) Cons.prems(2) c, of rnd]
  obtain e1 where e1: "run_op rnd e c = Some e1" "config e1 = config e"
      "length (fallback_buffer e1) \<le> nat (sint (fallback_window_size (config e)))"
    by blast
  from Cons.IH [of e1] e1 Cons.prems(1) cs
  have "\<exists>e'. run_ops rnd e1 cs = Some e' \<and> config e' = config e \<and>
           length (fallback_buffer e') \<le> nat (sint (fallback_window_size (config e)))"
    by simp
  with e1(1) show ?case by simp
qed

text \<open>
  With \<open>setConfig\<close> among the calls, a bound on all the windows that the engine is
  given bounds the buffer.
\<close>

lemma run_op_bound:
  assumes "0 \<le> sint (fallback_window_size (config e))"
    and "sint (fallback_window_size (config e)) \<le> w"
    and "length (fallback_buffer e) \<le> nat w"
    and "\<forall>cfg'. c = SetConfig cfg' \<longrightarrow>
           0 \<le> sint (fallback_window_size cfg') \<and> sint (fallback_window_size cfg') \<le> w"
  shows "\<exists>e'. run_op rnd e c = Some e' \<and> 0 \<le> sint (fallback_window_size (config e')) \<and>
           sint (fallback_window_size (config e')) \<le> w \<and> length (fallback_buffer e') \<le> nat w"
proof (cases c)
  case (MakeDecision now signals)
  obtain d e' where m: "makeDecision rnd e now signals = Some (d, e')"
    using makeDecision_total by blast
  have "length (fallback_buffer (updateFallbackBuffer e v)) \<le> nat w" for v
    using updateFallbackBuffer_length [OF assms(1), of v] assms(2) by simp
  with makeDecision_engine [OF m] assms
  have "config e' = config e \<and> length (fallback_buffer e') \<le> nat w"
    by (auto simp add: updateFallbackBuffer_config)
  with m MakeDecision assms show ?thesis by simp
next
  case Reset
  with assms show ?thesis by (simp add: reset_def)
next
  case (SetConfig cfg')
  with assms show ?thesis by (simp add: setConfig_def)
qed

lemma run_ops_bound:
  assumes "0 \<le> sint (fallback_window_size (config e))"
    and "sint (fallback_window_size (config e)) \<le> w"
    and "length (fallback_buffer e) \<le> nat w"
    and "\<forall>cfg'. SetConfig cfg' \<in> set cs \<longrightarrow>
           0 \<le> sint (fallback_window_size cfg') \<and> sint (fallback_window_size cfg') \<le> w"
  shows "\<exists>e'. run_ops rnd e cs = Some e' \<and> length (fallback_buffer e') \<le> nat w"
  using assms
proof (induction cs arbitrary: e)
  case Nil
  then show ?case by simp
next
  case (Cons c cs)
  from Cons.prems(4)
  have c: "\<forall>cfg'. c = SetConfig cfg' \<longrightarrow>
           0 \<le> sint (fallback_window_size cfg') \<and> sint (fallback_window_size cfg') \<le> w"
    and cs: "\<forall>cfg'. SetConfig cfg' \<in> set cs \<longrightarrow>
           0 \<le> sint (fallback_window_size cfg') \<and> sint (fallback_window_size cfg') \<le> w"
    by simp_all
  from run_op_bound [OF Cons.prems(1) Cons.prems(2) Cons.prems(3) c, of rnd]
  obtain e1 where e1: "run_op rnd e c = Some e1" "0 \<le> sint (fallback_window_size (config e1))"
      "sint (fallback_window_size (config e1)) \<le> w" "length (fallback_buffer e1) \<le> nat w"
    by blast
  from Cons.IH [OF e1(2) e1(3) e1(4) cs]
  have "\<exists>e'. run_ops rnd e1 cs = Some e' \<and> length (fallback_buffer e') \<le> nat w" .
  with e1(1) show ?case by simp
qed

lemma setConfig_buffer: "fallback_buffer (setConfig e cfg) = fallback_buffer e"
  by (simp add: setConfig_def)

text \<open>
  C7, as the code has it. For every rounding of the float operations and every
  configured window of at least 1 (its range in the data model): after any sequence
  of \<open>makeDecision\<close> and \<open>reset\<close> calls on a constructed engine the buffer holds at most
  \<open>fallback_window_size\<close> values; after any sequence of \<open>makeDecision\<close>, \<open>reset\<close> and
  \<open>setConfig\<close> calls it holds at most \<open>w\<close> values, when \<open>w\<close> bounds the window of the
  constructor and of every \<open>setConfig\<close>; \<open>setConfig\<close> leaves the buffer as it is; after
  any single push the buffer holds at most \<open>fallback_window_size\<close> values; a push onto a
  buffer below the window appends, a push onto a full buffer drops exactly the oldest
  value; \<open>makeDecision\<close> changes the engine only when the decision is \<open>DECISION_VALID\<close>,
  by pushing \<open>final_value\<close>. With window 3, pushing the floats 0.1f, 0.2f, 0.3f, 0.4f
  leaves 0.2f, 0.3f, 0.4f, whose mean as \<open>calculateFallbackValue\<close> computes it in single
  precision is \<open>10066329 / 2 ^ 25\<close>, the float below 0.3f.
\<close>

theorem fallback_buffer_bounded:
  assumes "1 \<le> sint (fallback_window_size cfg)"
  shows
   "((\<forall>c \<in> set cs. \<not> changes_config c) \<longrightarrow>
       (\<exists>e'. run_ops rnd (AILLEEngine_init cfg) cs = Some e' \<and> config e' = cfg \<and>
          length (fallback_buffer e') \<le> nat (sint (fallback_window_size cfg))))
  \<and> (sint (fallback_window_size cfg) \<le> w \<and>
      (\<forall>cfg'. SetConfig cfg' \<in> set cs \<longrightarrow>
          1 \<le> sint (fallback_window_size cfg') \<and> sint (fallback_window_size cfg') \<le> w) \<longrightarrow>
       (\<exists>e'. run_ops rnd (AILLEEngine_init cfg) cs = Some e' \<and>
          length (fallback_buffer e') \<le> nat w))
  \<and> fallback_buffer (setConfig e cfg) = fallback_buffer e
  \<and> length (fallback_buffer (updateFallbackBuffer \<lparr>config = cfg, fallback_buffer = buf\<rparr> v))
       \<le> nat (sint (fallback_window_size cfg))
  \<and> (length buf < nat (sint (fallback_window_size cfg)) \<longrightarrow>
       fallback_buffer (updateFallbackBuffer \<lparr>config = cfg, fallback_buffer = buf\<rparr> v) = buf @ [v])
  \<and> (length buf = nat (sint (fallback_window_size cfg)) \<longrightarrow>
       fallback_buffer (updateFallbackBuffer \<lparr>config = cfg, fallback_buffer = buf\<rparr> v)
         = tl buf @ [v])
  \<and> (makeDecision rnd e now signals = Some (d, e1) \<and> status d \<noteq> DECISION_VALID \<longrightarrow> e1 = e)
  \<and> (makeDecision rnd e now signals = Some (d, e1) \<and> status d = DECISION_VALID \<longrightarrow>
       e1 = updateFallbackBuffer e (final_value d))
  \<and> fallback_buffer
       (foldl updateFallbackBuffer (AILLEEngine_init (AILLEConfig_init\<lparr>fallback_window_size := 3\<rparr>))
          [binary32 (1 / 10), binary32 (2 / 10), binary32 (3 / 10), binary32 (4 / 10)])
       = [binary32 (2 / 10), binary32 (3 / 10), binary32 (4 / 10)]
  \<and> calculateFallbackValue binary32
       (foldl updateFallbackBuffer (AILLEEngine_init (AILLEConfig_init\<lparr>fallback_window_size := 3\<rparr>))
          [binary32 (1 / 10), binary32 (2 / 10), binary32 (3 / 10), binary32 (4 / 10)])
       = 10066329 / 2 ^ 25
  \<and> binary32 (3 / 10) = 10066330 / 2 ^ 25"
proof -
  let ?w = "nat (sint (fallback_window_size cfg))"
  let ?e = "\<lparr>config = cfg, fallback_buffer = buf\<rparr>"
  from assms have w0: "0 \<le> sint (fallback_window_size cfg)" and w1: "1 \<le> ?w"
    by simp_all
  have 1: "(\<forall>c \<in> set cs. \<not> changes_config c) \<longrightarrow>
       (\<exists>e'. run_ops rnd (AILLEEngine_init cfg) cs = Some e' \<and> config e' = cfg \<and>
          length (fallback_buffer e') \<le> ?w)"
    using run_ops_invariant [of "AILLEEngine_init cfg" cs rnd] w0
    by (simp add: AILLEEngine_init_def)
  have 2: "sint (fallback_window_size cfg) \<le> w \<and>
      (\<forall>cfg'. SetConfig cfg' \<in> set cs \<longrightarrow>
          1 \<le> sint (fallback_window_size cfg') \<and> sint (fallback_window_size cfg') \<le> w) \<longrightarrow>
       (\<exists>e'. run_ops rnd (AILLEEngine_init cfg) cs = Some e' \<and>
          length (fallback_buffer e') \<le> nat w)"
  proof
    assume a: "sint (fallback_window_size cfg) \<le> w \<and>
      (\<forall>cfg'. SetConfig cfg' \<in> set cs \<longrightarrow>
          1 \<le> sint (fallback_window_size cfg') \<and> sint (fallback_window_size cfg') \<le> w)"
    then have b: "\<forall>cfg'. SetConfig cfg' \<in> set cs \<longrightarrow>
          0 \<le> sint (fallback_window_size cfg') \<and> sint (fallback_window_size cfg') \<le> w"
      by auto
    show "\<exists>e'. run_ops rnd (AILLEEngine_init cfg) cs = Some e' \<and>
          length (fallback_buffer e') \<le> nat w"
      using run_ops_bound [of "AILLEEngine_init cfg" w cs rnd] w0 a b
      by (simp add: AILLEEngine_init_def)
  qed
  have 3: "length (fallback_buffer (updateFallbackBuffer ?e v)) \<le> ?w"
    using updateFallbackBuffer_length [of ?e v] w0 by simp
  have 4: "length buf < ?w \<longrightarrow> fallback_buffer (updateFallbackBuffer ?e v) = buf @ [v]"
    using updateFallbackBuffer_drop [of ?e v] w0 by simp
  have 5: "length buf = ?w \<longrightarrow> fallback_buffer (updateFallbackBuffer ?e v) = tl buf @ [v]"
  proof
    assume l: "length buf = ?w"
    with w1 obtain x xs where b: "buf = x # xs"
      by (cases buf) auto
    from l have "Suc (length buf) - ?w = 1"
      by simp
    with b show "fallback_buffer (updateFallbackBuffer ?e v) = tl buf @ [v]"
      using updateFallbackBuffer_drop [of ?e v] w0 by simp
  qed
  have 6: "makeDecision rnd e now signals = Some (d, e1) \<and> status d \<noteq> DECISION_VALID
             \<longrightarrow> e1 = e"
    using makeDecision_engine [of rnd e now signals d e1] by auto
  have 7: "makeDecision rnd e now signals = Some (d, e1) \<and> status d = DECISION_VALID \<longrightarrow>
       e1 = updateFallbackBuffer e (final_value d)"
    using makeDecision_engine [of rnd e now signals d e1] by auto
  have 8: "foldl updateFallbackBuffer (AILLEEngine_init (AILLEConfig_init\<lparr>fallback_window_size := 3\<rparr>))
          [binary32 (1 / 10), binary32 (2 / 10), binary32 (3 / 10), binary32 (4 / 10)]
       = \<lparr>config = AILLEConfig_init\<lparr>fallback_window_size := 3\<rparr>,
           fallback_buffer = [binary32 (2 / 10), binary32 (3 / 10), binary32 (4 / 10)]\<rparr>"
    by (simp add: updateFallbackBuffer_def pop_front_while_drop size_t_of_int_def
          AILLEEngine_init_def AILLEConfig_init_def)
  have 9: "calculateFallbackValue binary32 \<lparr>config = AILLEConfig_init\<lparr>fallback_window_size := 3\<rparr>,
           fallback_buffer = [binary32 (2 / 10), binary32 (3 / 10), binary32 (4 / 10)]\<rparr>
         = 10066329 / 2 ^ 25"
    by (rule float_mean_tenths)
  have 10: "binary32 (3 / 10) = 10066330 / 2 ^ 25"
    by (simp add: binary32_tenths)
  from 1 2 3 4 5 6 7 10 show ?thesis
    unfolding 8 9 by (simp add: setConfig_buffer)
qed

theorem fallback_buffer_bounded_witness:
  "1 \<le> sint (fallback_window_size (AILLEConfig_init\<lparr>fallback_window_size := 3\<rparr>))
   \<and> filter changes_config [MakeDecision 1 dyadic_signals, Reset, MakeDecision 2 weak_signals,
                              MakeDecision 3 dyadic_signals] = []
   \<and> (\<exists>e'. run_ops binary32 (AILLEEngine_init (AILLEConfig_init\<lparr>fallback_window_size := 3\<rparr>))
            [MakeDecision 1 dyadic_signals, Reset, MakeDecision 2 weak_signals,
             MakeDecision 3 dyadic_signals] = Some e'
          \<and> length (fallback_buffer e') \<le> 3)
   \<and> 1 \<le> sint (fallback_window_size AILLEConfig_init)
   \<and> sint (fallback_window_size AILLEConfig_init) \<le> 50
   \<and> filter changes_config shrink_ops
       = [SetConfig (AILLEConfig_init\<lparr>fallback_window_size := 2\<rparr>)]
   \<and> 1 \<le> sint (fallback_window_size (AILLEConfig_init\<lparr>fallback_window_size := 2\<rparr>))
   \<and> sint (fallback_window_size (AILLEConfig_init\<lparr>fallback_window_size := 2\<rparr>)) \<le> 50
   \<and> (\<exists>e'. run_ops binary32 (AILLEEngine_init AILLEConfig_init) shrink_ops = Some e'
          \<and> length (fallback_buffer e') \<le> 50)
   \<and> fallback_buffer (updateFallbackBuffer
         \<lparr>config = AILLEConfig_init\<lparr>fallback_window_size := 3\<rparr>, fallback_buffer = [1, 2, 3]\<rparr> 4)
       = [2, 3, 4]
   \<and> fallback_buffer (updateFallbackBuffer
         \<lparr>config = AILLEConfig_init\<lparr>fallback_window_size := 3\<rparr>, fallback_buffer = [1, 2]\<rparr> 4)
       = [1, 2, 4]"
proof -
  let ?cfg = "AILLEConfig_init\<lparr>fallback_window_size := 3\<rparr>"
  let ?cs = "[MakeDecision 1 dyadic_signals, Reset, MakeDecision 2 weak_signals,
             MakeDecision 3 dyadic_signals]"
  have h: "1 \<le> sint (fallback_window_size ?cfg)"
    by (simp add: AILLEConfig_init_def)
  have w: "nat (sint (fallback_window_size ?cfg)) = 3"
    by (simp add: AILLEConfig_init_def)
  have h': "1 \<le> sint (fallback_window_size AILLEConfig_init)"
    by (simp add: AILLEConfig_init_def)
  have n: "\<forall>c \<in> set ?cs. \<not> changes_config c"
    by simp
  have s: "sint (fallback_window_size AILLEConfig_init) \<le> 50 \<and>
      (\<forall>cfg'. SetConfig cfg' \<in> set shrink_ops \<longrightarrow>
         1 \<le> sint (fallback_window_size cfg') \<and> sint (fallback_window_size cfg') \<le> 50)"
    by (auto simp add: shrink_ops_def AILLEConfig_init_def)
  note full = fallback_buffer_bounded
      [OF h, where cs = ?cs and buf = "[1, 2, 3]" and v = 4 and e = "AILLEEngine_init ?cfg"
         and now = 0 and signals = "[]" and d = Decision_init and ?e1.0 = "AILLEEngine_init ?cfg"
         and rnd = binary32 and w = 3]
  note part = fallback_buffer_bounded
      [OF h, where cs = "[]" and buf = "[1, 2]" and v = 4 and e = "AILLEEngine_init ?cfg"
         and now = 0 and signals = "[]" and d = Decision_init and ?e1.0 = "AILLEEngine_init ?cfg"
         and rnd = binary32 and w = 3]
  note shrink = fallback_buffer_bounded
      [OF h', where cs = shrink_ops and buf = "[]" and v = 4
         and e = "AILLEEngine_init AILLEConfig_init"
         and now = 0 and signals = "[]" and d = Decision_init
         and ?e1.0 = "AILLEEngine_init AILLEConfig_init" and rnd = binary32 and w = 50]
  from full n have a: "\<exists>e'. run_ops binary32 (AILLEEngine_init ?cfg) ?cs = Some e' \<and>
          config e' = ?cfg \<and>
          length (fallback_buffer e') \<le> nat (sint (fallback_window_size ?cfg))"
    by blast
  from full have b: "fallback_buffer (updateFallbackBuffer
         \<lparr>config = ?cfg, fallback_buffer = [1, 2, 3]\<rparr> 4) = tl [1, 2, 3] @ [4]"
    unfolding w by simp
  from part have c: "fallback_buffer (updateFallbackBuffer
         \<lparr>config = ?cfg, fallback_buffer = [1, 2]\<rparr> 4) = [1, 2] @ [4]"
    unfolding w by simp
  from a have a': "\<exists>e'. run_ops binary32 (AILLEEngine_init ?cfg) ?cs = Some e' \<and>
          length (fallback_buffer e') \<le> 3"
    unfolding w by blast
  from shrink s
  have d: "\<exists>e'. run_ops binary32 (AILLEEngine_init AILLEConfig_init) shrink_ops = Some e' \<and>
          length (fallback_buffer e') \<le> nat 50"
    by blast
  have f: "filter changes_config ?cs = []"
      "filter changes_config shrink_ops
         = [SetConfig (AILLEConfig_init\<lparr>fallback_window_size := 2\<rparr>)]"
    by (simp_all add: shrink_ops_def)
  have g: "1 \<le> sint (fallback_window_size (AILLEConfig_init\<lparr>fallback_window_size := 2\<rparr>))"
      "sint (fallback_window_size (AILLEConfig_init\<lparr>fallback_window_size := 2\<rparr>)) \<le> 50"
      "sint (fallback_window_size AILLEConfig_init) \<le> 50"
    by (simp_all add: AILLEConfig_init_def)
  from h h' f g a' b c d show ?thesis
    by simp
qed

text \<open>
  C7, as the claim has it, fails in two places. \<open>setConfig\<close> is one of the operations
  and does not trim the buffer: after three valid decisions under the default window,
  a change to a window of 2 and a rejected batch, the buffer holds 3 values. And the
  float mean of 0.2f, 0.3f, 0.4f is not the float 0.3f, nor three tenths.
\<close>

theorem fallback_buffer_exceeds_window:
  "run_ops binary32 (AILLEEngine_init AILLEConfig_init) shrink_ops =
     Some \<lparr>config = AILLEConfig_init\<lparr>fallback_window_size := 2\<rparr>,
           fallback_buffer = [tanh (9786709 / 33554432 * 100), tanh (9786709 / 33554432 * 100),
                              tanh (9786709 / 33554432 * 100)]\<rparr>
   \<and> sint (fallback_window_size (AILLEConfig_init\<lparr>fallback_window_size := 2\<rparr>)) = 2
   \<and> calculateFallbackValue binary32
       (foldl updateFallbackBuffer (AILLEEngine_init (AILLEConfig_init\<lparr>fallback_window_size := 3\<rparr>))
          [binary32 (1 / 10), binary32 (2 / 10), binary32 (3 / 10), binary32 (4 / 10)])
       < binary32 (3 / 10)
   \<and> binary32 (3 / 10) \<noteq> 3 / 10"
proof -
  let ?v = "tanh (9786709 / 33554432 * 100)"
  have m: "makeDecision binary32 \<lparr>config = AILLEConfig_init, fallback_buffer = buf\<rparr> now
             dyadic_signals
           = Some (\<lparr>final_value = ?v, status = DECISION_VALID, confidence = 85 / 100,
                     models_agreed = 3, fallback_used = False, timestamp_ns = now,
                     contributing_models = [0, 1, 2], reasoning = ''Consensus: 3 models''\<rparr>,
                   updateFallbackBuffer \<lparr>config = AILLEConfig_init, fallback_buffer = buf\<rparr> ?v)"
    for buf now
  proof -
    let ?e = "\<lparr>config = AILLEConfig_init, fallback_buffer = buf\<rparr>"
    have c: "checkConsensus binary32 (config ?e) (applySafetyLayer (config ?e) dyadic_signals)
               = Some (ConsensusReached (9786709 / 33554432) 3)"
      by (simp add: applySafetyLayer_examples checkConsensus_examples)
    show ?thesis
      using makeDecision_consensus [OF c, of now]
      by (simp add: applySafetyLayer_examples)
        (simp add: dyadic_signals_def ModelSignal_init_def to_string_def digits.simps)
  qed
  have u: "updateFallbackBuffer \<lparr>config = AILLEConfig_init, fallback_buffer = buf\<rparr> v
      = \<lparr>config = AILLEConfig_init, fallback_buffer = buf @ [v]\<rparr>" if "length buf < 50" for buf v
    using that
    by (simp add: updateFallbackBuffer_def pop_front_while_drop AILLEConfig_init_def
          size_t_of_int_def)
  have l: "makeDecision binary32 e now weak_signals
           = Some (\<lparr>final_value = getFallbackValue binary32 e,
                status = REJECTED_LOW_CONFIDENCE, confidence = 1 / 10, models_agreed = 0,
                fallback_used = True, timestamp_ns = now, contributing_models = [],
                reasoning = ''All models failed confidence - fallback''\<rparr>, e)"
    if "config e = AILLEConfig_init\<lparr>fallback_window_size := 2\<rparr>" for e now
  proof -
    have w: "weak_signals \<noteq> []"
      by (simp add: weak_signals_def)
    have a: "applySafetyLayer (config e) weak_signals = []"
      unfolding that
      by (simp add: applySafetyLayer_def AILLEConfig_init_def weak_signals_def
            ModelSignal_init_def)
    show ?thesis
      by (rule makeDecision_low_confidence [OF w a])
  qed
  have r: "run_ops binary32 (AILLEEngine_init AILLEConfig_init) shrink_ops =
     Some \<lparr>config = AILLEConfig_init\<lparr>fallback_window_size := 2\<rparr>,
           fallback_buffer = [?v, ?v, ?v]\<rparr>"
    by (simp add: shrink_ops_def AILLEEngine_init_def m u l setConfig_def)
  have 8: "foldl updateFallbackBuffer (AILLEEngine_init (AILLEConfig_init\<lparr>fallback_window_size := 3\<rparr>))
          [binary32 (1 / 10), binary32 (2 / 10), binary32 (3 / 10), binary32 (4 / 10)]
       = \<lparr>config = AILLEConfig_init\<lparr>fallback_window_size := 3\<rparr>,
           fallback_buffer = [binary32 (2 / 10), binary32 (3 / 10), binary32 (4 / 10)]\<rparr>"
    by (simp add: updateFallbackBuffer_def pop_front_while_drop size_t_of_int_def
          AILLEEngine_init_def AILLEConfig_init_def)
  have 9: "calculateFallbackValue binary32 \<lparr>config = AILLEConfig_init\<lparr>fallback_window_size := 3\<rparr>,
           fallback_buffer = [binary32 (2 / 10), binary32 (3 / 10), binary32 (4 / 10)]\<rparr>
         = 10066329 / 2 ^ 25"
    by (rule float_mean_tenths)
  have 10: "binary32 (3 / 10) = 10066330 / 2 ^ 25"
    by (simp add: binary32_tenths)
  have 11: "calculateFallbackValue binary32
       (foldl updateFallbackBuffer (AILLEEngine_init (AILLEConfig_init\<lparr>fallback_window_size := 3\<rparr>))
          [binary32 (1 / 10), binary32 (2 / 10), binary32 (3 / 10), binary32 (4 / 10)])
       = 10066329 / 2 ^ 25"
    unfolding 8 by (rule 9)
  have w: "sint (fallback_window_size (AILLEConfig_init\<lparr>fallback_window_size := 2\<rparr>)) = 2"
    by simp
  have c: "calculateFallbackValue binary32
       (foldl updateFallbackBuffer (AILLEEngine_init (AILLEConfig_init\<lparr>fallback_window_size := 3\<rparr>))
          [binary32 (1 / 10), binary32 (2 / 10), binary32 (3 / 10), binary32 (4 / 10)])
       < binary32 (3 / 10)"
    unfolding 11 unfolding 10 by simp
  have d: "binary32 (3 / 10) \<noteq> 3 / 10"
    unfolding 10 by simp
  from r w c d show ?thesis
    by blast
qed

text \<open>
  Outside the data model's range: with a negative window the cast to \<open>size_t\<close> gives
  a bound that the buffer never reaches, so nothing is ever evicted.
\<close>

lemma updateFallbackBuffer_negative_window:
  assumes "sint (fallback_window_size (config e)) < 0" and "length (fallback_buffer e) < 2 ^ 63"
  shows "fallback_buffer (updateFallbackBuffer e v) = fallback_buffer e @ [v]"
proof -
  have "- (2 ^ (LENGTH(32) - 1)) \<le> sint (fallback_window_size (config e))"
    by (rule sint_ge)
  then have "(2 :: int) ^ 63 \<le> 2 ^ 64 + sint (fallback_window_size (config e))"
    by simp
  then have "nat (2 ^ 63) \<le> nat (2 ^ 64 + sint (fallback_window_size (config e)))"
    by (rule nat_mono)
  then have "(2 :: nat) ^ 63 \<le> nat (2 ^ 64 + sint (fallback_window_size (config e)))"
    by simp
  with assms show ?thesis
    by (simp add: updateFallbackBuffer_def pop_front_while_drop size_t_of_int_neg)
qed

text \<open>
  After a change to a smaller window the next push trims the buffer to the new window.
\<close>

lemma setConfig_smaller_window:
  "fallback_buffer (setConfig \<lparr>config = AILLEConfig_init, fallback_buffer = [1, 2, 3]\<rparr>
      (AILLEConfig_init\<lparr>fallback_window_size := 2\<rparr>)) = [1, 2, 3]
   \<and> fallback_buffer (updateFallbackBuffer
        (setConfig \<lparr>config = AILLEConfig_init, fallback_buffer = [1, 2, 3]\<rparr>
           (AILLEConfig_init\<lparr>fallback_window_size := 2\<rparr>)) 4) = [3, 4]"
  by (simp add: setConfig_def updateFallbackBuffer_def pop_front_while_drop size_t_of_int_def
        AILLEConfig_init_def)

section \<open>Properties of the audit logger\<close>

text \<open>The record that \<open>logDecision\<close> appends.\<close>

lemma logDecision_state:
  "\<exists>r. audit_trail (snd (logDecision p lg d s t)) = audit_trail lg @ [r]
     \<and> next_decision_id (snd (logDecision p lg d s t)) = next_decision_id lg + 1
     \<and> last_hash (snd (logDecision p lg d s t)) = hash r
     \<and> prev_hash r = last_hash lg
     \<and> decision_id r = next_decision_id lg
     \<and> hash r = computeHash p r
     \<and> rec_final_value r = final_value d"
  by (simp add: logDecision_def Let_def computeHash_def)

lemma verifyIntegrity_loop_snoc:
  "verifyIntegrity_loop expected (rs @ [r]) =
     (verifyIntegrity_loop expected rs \<and>
      prev_hash r = (if rs = [] then expected else hash (last rs)))"
  by (induction rs arbitrary: expected) auto

lemma verifyIntegrity_loop_index:
  "verifyIntegrity_loop expected rs =
     (\<forall>i < length rs. prev_hash (rs ! i) = (if i = 0 then expected else hash (rs ! (i - 1))))"
proof (induction rs arbitrary: expected)
  case Nil
  show ?case by simp
next
  case (Cons r rs)
  show ?case
  proof
    assume a: "verifyIntegrity_loop expected (r # rs)"
    then have p: "prev_hash r = expected" and l: "verifyIntegrity_loop (hash r) rs"
      by (auto split: if_splits)
    show "\<forall>i < length (r # rs).
        prev_hash ((r # rs) ! i) = (if i = 0 then expected else hash ((r # rs) ! (i - 1)))"
    proof (intro allI impI)
      fix i assume i: "i < length (r # rs)"
      show "prev_hash ((r # rs) ! i) = (if i = 0 then expected else hash ((r # rs) ! (i - 1)))"
      proof (cases i)
        case 0
        with p show ?thesis by simp
      next
        case (Suc j)
        with i have "j < length rs" by simp
        with l Cons.IH [of "hash r"]
        have "prev_hash (rs ! j) = (if j = 0 then hash r else hash (rs ! (j - 1)))"
          by blast
        with Suc show ?thesis by (cases j) auto
      qed
    qed
  next
    assume a: "\<forall>i < length (r # rs).
        prev_hash ((r # rs) ! i) = (if i = 0 then expected else hash ((r # rs) ! (i - 1)))"
    then have p: "prev_hash r = expected" by auto
    have "\<forall>j < length rs. prev_hash (rs ! j) = (if j = 0 then hash r else hash (rs ! (j - 1)))"
    proof (intro allI impI)
      fix j assume j: "j < length rs"
      with a have "prev_hash ((r # rs) ! Suc j) = hash ((r # rs) ! j)"
        by (metis Suc_less_eq diff_Suc_1 length_Cons nat.simps(3))
      then show "prev_hash (rs ! j) = (if j = 0 then hash r else hash (rs ! (j - 1)))"
        by (cases j) auto
    qed
    with Cons.IH [of "hash r"] have "verifyIntegrity_loop (hash r) rs" by blast
    with p show "verifyIntegrity_loop expected (r # rs)" by simp
  qed
qed

lemma verifyIntegrity_eq:
  "verifyIntegrity lg = verifyIntegrity_loop ''0000000000000000'' (audit_trail lg)"
  by (simp add: verifyIntegrity_def)

lemma logDecisions_snoc:
  "logDecisions p lg (calls @ [(d, s, t)]) = snd (logDecision p (logDecisions p lg calls) d s t)"
  by (simp add: logDecisions_def)

lemma unat_next_id:
  assumes "Suc n < 2 ^ 64"
  shows "unat (1 + word_of_nat n :: 64 word) = Suc n"
proof -
  have "(1 + word_of_nat n :: 64 word) = word_of_nat (Suc n)"
    by simp
  then have "unat (1 + word_of_nat n :: 64 word) = Suc n mod 2 ^ LENGTH(64)"
    by (simp only: unat_of_nat)
  with assms show ?thesis
    by simp
qed

text \<open>The state of a logger after the calls, from a constructed logger.\<close>

lemma logDecisions_invariant:
  "length (audit_trail (logDecisions p (AuditLogger_init\<lparr>log_file := f\<rparr>) calls)) = length calls
   \<and> verifyIntegrity_loop ''0000000000000000''
        (audit_trail (logDecisions p (AuditLogger_init\<lparr>log_file := f\<rparr>) calls))
   \<and> last_hash (logDecisions p (AuditLogger_init\<lparr>log_file := f\<rparr>) calls) =
       (if calls = [] then ''0000000000000000''
        else hash (last (audit_trail (logDecisions p (AuditLogger_init\<lparr>log_file := f\<rparr>) calls))))
   \<and> next_decision_id (logDecisions p (AuditLogger_init\<lparr>log_file := f\<rparr>) calls)
       = 1 + word_of_nat (length calls)
   \<and> (\<forall>i < length calls.
        decision_id (audit_trail (logDecisions p (AuditLogger_init\<lparr>log_file := f\<rparr>) calls) ! i)
          = 1 + word_of_nat i)"
proof (induction calls rule: rev_induct)
  case Nil
  show ?case by (simp add: logDecisions_def AuditLogger_init_def)
next
  case (snoc c calls)
  obtain d s t where c: "c = (d, s, t)" by (cases c) auto
  let ?lg = "logDecisions p (AuditLogger_init\<lparr>log_file := f\<rparr>) calls"
  obtain r where r: "audit_trail (snd (logDecision p ?lg d s t)) = audit_trail ?lg @ [r]"
      "next_decision_id (snd (logDecision p ?lg d s t)) = next_decision_id ?lg + 1"
      "last_hash (snd (logDecision p ?lg d s t)) = hash r"
      "prev_hash r = last_hash ?lg"
      "decision_id r = next_decision_id ?lg"
    using logDecision_state [of p ?lg d s t] by blast
  from snoc.IH have ih: "length (audit_trail ?lg) = length calls"
      "verifyIntegrity_loop ''0000000000000000'' (audit_trail ?lg)"
      "last_hash ?lg = (if calls = [] then ''0000000000000000'' else hash (last (audit_trail ?lg)))"
      "next_decision_id ?lg = 1 + word_of_nat (length calls)"
      "\<forall>i < length calls. decision_id (audit_trail ?lg ! i) = 1 + word_of_nat i"
    by blast+
  from ih(1) have e: "(audit_trail ?lg = []) = (calls = [])" by auto
  have "\<forall>i < length (calls @ [c]).
        decision_id ((audit_trail ?lg @ [r]) ! i) = 1 + word_of_nat i"
  proof (intro allI impI)
    fix i assume "i < length (calls @ [c])"
    then consider "i < length calls" | "i = length calls" by fastforce
    then show "decision_id ((audit_trail ?lg @ [r]) ! i) = 1 + word_of_nat i"
    proof cases
      case 1
      with ih(1) ih(5) show ?thesis by (simp add: nth_append)
    next
      case 2
      with ih(1) ih(4) r(5) show ?thesis by (simp add: nth_append)
    qed
  qed
  with r ih e show ?case
    unfolding c logDecisions_snoc
    by (simp add: verifyIntegrity_loop_snoc)
qed

lemma AuditLogger_file_eq:
  "AuditLogger_file outcome = AuditLogger_init\<lparr>log_file := log_file (AuditLogger_file outcome)\<rparr>"
  by (cases outcome)
    (simp_all add: AuditLogger_file_def open_file_def AuditLogger_init_def ofstream_init_def Let_def)

text \<open>
  C2. After any sequence of fewer than \<open>2 ^ 64\<close> \<open>logDecision\<close> calls on a logger made
  by either constructor, with nothing else done to the trail: there is one record per
  call, the first record's \<open>prev_hash\<close> is the genesis value, every later record's
  \<open>prev_hash\<close> is the \<open>hash\<close> of the record before it, the \<open>decision_id\<close>s are 1, 2, 3,
  ... in order, and \<open>verifyIntegrity\<close> returns true (also for no call at all).
\<close>

theorem logDecisions_chain:
  assumes "length calls < 2 ^ 64"
  shows "let lg = logDecisions p (AuditLogger_init\<lparr>log_file := f\<rparr>) calls;
             trail = audit_trail lg
         in length trail = length calls
          \<and> (\<forall>i < length trail.
                prev_hash (trail ! i) =
                  (if i = 0 then ''0000000000000000'' else hash (trail ! (i - 1))))
          \<and> (\<forall>i < length trail. unat (decision_id (trail ! i)) = i + 1)
          \<and> verifyIntegrity lg
          \<and> (\<exists>f'. AuditLogger_file outcome = AuditLogger_init\<lparr>log_file := f'\<rparr>)"
proof -
  let ?lg = "logDecisions p (AuditLogger_init\<lparr>log_file := f\<rparr>) calls"
  note inv = logDecisions_invariant [of p f calls]
  from inv have len: "length (audit_trail ?lg) = length calls"
    by blast
  from inv have v: "verifyIntegrity_loop ''0000000000000000'' (audit_trail ?lg)"
    by blast
  from inv have ids: "\<forall>i < length calls. decision_id (audit_trail ?lg ! i) = 1 + word_of_nat i"
    by blast
  have 1: "\<forall>i < length (audit_trail ?lg).
      prev_hash (audit_trail ?lg ! i) =
        (if i = 0 then ''0000000000000000'' else hash (audit_trail ?lg ! (i - 1)))"
    using v by (simp only: verifyIntegrity_loop_index)
  have 2: "\<forall>i < length (audit_trail ?lg). unat (decision_id (audit_trail ?lg ! i)) = i + 1"
  proof (intro allI impI)
    fix i assume i: "i < length (audit_trail ?lg)"
    with len assms have "Suc i < 2 ^ 64" by simp
    then have "unat (1 + word_of_nat i :: 64 word) = Suc i"
      by (rule unat_next_id)
    with i len ids show "unat (decision_id (audit_trail ?lg ! i)) = i + 1"
      by simp
  qed
  have 3: "verifyIntegrity ?lg"
    using v by (simp add: verifyIntegrity_eq)
  have 4: "\<exists>f'. AuditLogger_file outcome = AuditLogger_init\<lparr>log_file := f'\<rparr>"
    using AuditLogger_file_eq [of outcome] by blast
  from len 1 2 3 4 show ?thesis
    unfolding Let_def by blast
qed

theorem logDecisions_chain_witness:
  "length two_calls < 2 ^ 64
   \<and> (let trail = audit_trail (logDecisions demo_platform AuditLogger_init two_calls)
      in length trail = 2
       \<and> prev_hash (trail ! 0) = ''0000000000000000''
       \<and> prev_hash (trail ! 1) = hash (trail ! 0)
       \<and> unat (decision_id (trail ! 0)) = 1
       \<and> unat (decision_id (trail ! 1)) = 2)
   \<and> verifyIntegrity (logDecisions demo_platform AuditLogger_init two_calls)"
proof -
  have h: "length two_calls < 2 ^ 64"
    by (simp add: two_calls_def)
  have l: "length two_calls = 2"
    by (simp add: two_calls_def)
  have a: "AuditLogger_init\<lparr>log_file := ofstream_init\<rparr> = AuditLogger_init"
    by (simp add: AuditLogger_init_def)
  note t = logDecisions_chain [OF h, of demo_platform ofstream_init "OpenOk True",
      unfolded Let_def a l]
  from h t show ?thesis
    unfolding Let_def by auto
qed

lemma verifyIntegrity_loop_cong:
  assumes "map prev_hash rs = map prev_hash rs'" and "map hash rs = map hash rs'"
  shows "verifyIntegrity_loop expected rs = verifyIntegrity_loop expected rs'"
  using assms
proof (induction rs arbitrary: rs' expected)
  case Nil
  then show ?case by simp
next
  case (Cons r rs)
  then obtain r' rs1 where r': "rs' = r' # rs1"
    by (cases rs') auto
  with Cons.prems have "prev_hash r = prev_hash r'" "hash r = hash r'"
      "map prev_hash rs = map prev_hash rs1" "map hash rs = map hash rs1"
    by simp_all
  with Cons.IH [of rs1 "hash r"] r' show ?case
    by simp
qed

lemma map_update_same:
  assumes "g (u (rs ! i)) = g (rs ! i)"
  shows "map g (rs[i := u (rs ! i)]) = map g rs"
proof (cases "i < length rs")
  case True
  with assms show ?thesis
    by (simp add: map_update list_update_same_conv)
next
  case False
  then show ?thesis
    by (simp add: not_less list_update_beyond)
qed

lemma verifyIntegrity_tamper:
  "verifyIntegrity (tamper_final_value lg i v) = verifyIntegrity lg"
proof -
  let ?rs = "audit_trail lg"
  let ?rs' = "?rs[i := (?rs ! i)\<lparr>rec_final_value := v\<rparr>]"
  have p: "map prev_hash ?rs' = map prev_hash ?rs"
    by (rule map_update_same) simp
  have h: "map hash ?rs' = map hash ?rs"
    by (rule map_update_same) simp
  have "verifyIntegrity_loop ''0000000000000000'' ?rs' =
      verifyIntegrity_loop ''0000000000000000'' ?rs"
    using p h by (rule verifyIntegrity_loop_cong)
  then show ?thesis
    by (simp add: verifyIntegrity_eq tamper_final_value_def)
qed

lemma logDecision_one:
  "audit_trail (snd (logDecision demo_platform AuditLogger_init valid_decision ''DEMO'' ''s1'')) =
     [\<lparr>rec_timestamp_ns = 17, decision_id = 1, rec_status = DECISION_VALID,
       rec_final_value = 1 / 2, rec_confidence = 85 / 100, rec_models_agreed = 3,
       rec_fallback_used = False, rec_reasoning = ''Consensus: 3 models'', symbol = ''DEMO'',
       strategy_id = ''s1'', hash = ''298605b0b7d0ed78'',
       prev_hash = ''0000000000000000''\<rparr>]"
  apply (simp add: logDecision_def valid_decision_def AuditLogger_init_def AuditRecord_init_def
      Let_def ofstream_init_def)
  apply (simp add: computeHash_def demo_platform_def to_string_def digits.simps)
  apply (simp add: hex16_def upt_rec)
  done

lemma computeHash_tampered:
  "computeHash demo_platform
     \<lparr>rec_timestamp_ns = 17, decision_id = 1, rec_status = DECISION_VALID,
       rec_final_value = 9 / 10, rec_confidence = 85 / 100, rec_models_agreed = 3,
       rec_fallback_used = False, rec_reasoning = ''Consensus: 3 models'', symbol = ''DEMO'',
       strategy_id = ''s1'', hash = ''298605b0b7d0ed78'',
       prev_hash = ''0000000000000000''\<rparr> = ''51ab6f1e8db9867c''"
  apply (simp add: computeHash_def demo_platform_def to_string_def digits.simps)
  apply (simp add: hex16_def upt_rec)
  done

text \<open>
  C1. \<open>verifyIntegrity\<close> compares the stored \<open>prev_hash\<close> and \<open>hash\<close> fields only and
  never recomputes a digest. For the trail of one \<open>logDecision\<close> call, writing 0.9 over
  the stored \<open>final_value\<close> 0.5 leaves a record whose stored \<open>hash\<close> is no longer the
  digest of its content, and \<open>verifyIntegrity\<close> still returns true.
\<close>

theorem verifyIntegrity_misses_tampering:
  "verifyIntegrity
     (tamper_final_value
        (snd (logDecision demo_platform AuditLogger_init valid_decision ''DEMO'' ''s1'')) 0 (9 / 10))
   \<and> rec_final_value
       (audit_trail (snd (logDecision demo_platform AuditLogger_init valid_decision ''DEMO'' ''s1'')) ! 0)
       = 1 / 2
   \<and> rec_final_value
       (audit_trail (tamper_final_value
          (snd (logDecision demo_platform AuditLogger_init valid_decision ''DEMO'' ''s1'')) 0 (9 / 10)) ! 0)
       = 9 / 10
   \<and> hash
       (audit_trail (tamper_final_value
          (snd (logDecision demo_platform AuditLogger_init valid_decision ''DEMO'' ''s1'')) 0 (9 / 10)) ! 0)
       = ''298605b0b7d0ed78''
   \<and> computeHash demo_platform
       (audit_trail (tamper_final_value
          (snd (logDecision demo_platform AuditLogger_init valid_decision ''DEMO'' ''s1'')) 0 (9 / 10)) ! 0)
       = ''51ab6f1e8db9867c''"
proof -
  let ?lg = "snd (logDecision demo_platform AuditLogger_init valid_decision ''DEMO'' ''s1'')"
  have "verifyIntegrity ?lg"
    by (simp add: verifyIntegrity_def logDecision_one)
  then have v: "verifyIntegrity (tamper_final_value ?lg 0 (9 / 10))"
    by (simp only: verifyIntegrity_tamper)
  show ?thesis
    using v computeHash_tampered
    by (simp add: tamper_final_value_def logDecision_one)
qed

lemma verifyIntegrity_update_other:
  "verifyIntegrity
     (lg\<lparr>audit_trail := (audit_trail lg)
        [i := (audit_trail lg ! i)\<lparr>rec_status := st, rec_fallback_used := fb, symbol := sy,
               strategy_id := sid, rec_models_agreed := ma\<rparr>]\<rparr>) = verifyIntegrity lg"
proof -
  let ?rs = "audit_trail lg"
  let ?u = "\<lambda>r. r\<lparr>rec_status := st, rec_fallback_used := fb, symbol := sy,
               strategy_id := sid, rec_models_agreed := ma\<rparr>"
  have p: "map prev_hash (?rs[i := ?u (?rs ! i)]) = map prev_hash ?rs"
    by (rule map_update_same) simp
  have h: "map hash (?rs[i := ?u (?rs ! i)]) = map hash ?rs"
    by (rule map_update_same) simp
  have "verifyIntegrity_loop ''0000000000000000'' (?rs[i := ?u (?rs ! i)]) =
      verifyIntegrity_loop ''0000000000000000'' ?rs"
    using p h by (rule verifyIntegrity_loop_cong)
  then show ?thesis
    by (simp add: verifyIntegrity_eq)
qed

text \<open>
  C10. The digest of a record reads \<open>timestamp_ns\<close>, \<open>decision_id\<close>, \<open>final_value\<close>,
  \<open>confidence\<close>, \<open>reasoning\<close> and \<open>prev_hash\<close> (in aille\_audit.cpp also
  \<open>models_agreed\<close>) and nothing else: two records that agree on these have the same
  digest, whatever their \<open>status\<close>, \<open>fallback_used\<close>, \<open>symbol\<close>, \<open>strategy_id\<close>, (in
  aille.hpp) \<open>models_agreed\<close>, (in aille\_audit.cpp) \<open>contributing_models\<close> and
  \<open>user_id\<close>. Writing these fields of a stored record changes neither its digest nor
  the answer of \<open>verifyIntegrity\<close>.
\<close>

theorem computeHash_ignores_fields:
  "(rec_timestamp_ns r1 = rec_timestamp_ns r2 \<and> decision_id r1 = decision_id r2 \<and>
    rec_final_value r1 = rec_final_value r2 \<and> rec_confidence r1 = rec_confidence r2 \<and>
    rec_reasoning r1 = rec_reasoning r2 \<and> prev_hash r1 = prev_hash r2 \<longrightarrow>
      computeHash p r1 = computeHash p r2)
   \<and> (cpp_timestamp_ns c1 = cpp_timestamp_ns c2 \<and> cpp_decision_id c1 = cpp_decision_id c2 \<and>
      cpp_final_value c1 = cpp_final_value c2 \<and> cpp_confidence c1 = cpp_confidence c2 \<and>
      cpp_reasoning c1 = cpp_reasoning c2 \<and> cpp_prev_hash c1 = cpp_prev_hash c2 \<and>
      cpp_models_agreed c1 = cpp_models_agreed c2 \<longrightarrow>
        computeHash_cpp p c1 = computeHash_cpp p c2)
   \<and> computeHash p (r\<lparr>rec_status := st, rec_fallback_used := fb, symbol := sy,
                        strategy_id := sid, rec_models_agreed := ma\<rparr>) = computeHash p r
   \<and> verifyIntegrity
       (lg\<lparr>audit_trail := (audit_trail lg)
          [i := (audit_trail lg ! i)\<lparr>rec_status := st, rec_fallback_used := fb, symbol := sy,
                 strategy_id := sid, rec_models_agreed := ma\<rparr>]\<rparr>) = verifyIntegrity lg"
  by (simp add: computeHash_def computeHash_cpp_def verifyIntegrity_update_other)

theorem computeHash_ignores_fields_witness:
  "rec_timestamp_ns stored_record = rec_timestamp_ns relabelled_record
   \<and> decision_id stored_record = decision_id relabelled_record
   \<and> rec_final_value stored_record = rec_final_value relabelled_record
   \<and> rec_confidence stored_record = rec_confidence relabelled_record
   \<and> rec_reasoning stored_record = rec_reasoning relabelled_record
   \<and> prev_hash stored_record = prev_hash relabelled_record
   \<and> rec_status stored_record \<noteq> rec_status relabelled_record
   \<and> rec_models_agreed stored_record \<noteq> rec_models_agreed relabelled_record
   \<and> symbol stored_record \<noteq> symbol relabelled_record
   \<and> computeHash demo_platform stored_record = computeHash demo_platform relabelled_record
   \<and> cpp_models_agreed stored_record_cpp = cpp_models_agreed relabelled_record_cpp
   \<and> cpp_contributing_models stored_record_cpp \<noteq> cpp_contributing_models relabelled_record_cpp
   \<and> computeHash_cpp demo_platform stored_record_cpp
       = computeHash_cpp demo_platform relabelled_record_cpp"
  using computeHash_ignores_fields
    [where ?r1.0 = stored_record and ?r2.0 = relabelled_record and p = demo_platform
       and ?c1.0 = stored_record_cpp and ?c2.0 = relabelled_record_cpp]
  by (simp add: stored_record_def relabelled_record_def stored_record_cpp_def
        relabelled_record_cpp_def)

lemma logDecision_memory:
  "audit_trail (snd (logDecision p (lg\<lparr>log_file := f\<rparr>) d s t))
     = audit_trail (snd (logDecision p lg d s t))
   \<and> next_decision_id (snd (logDecision p (lg\<lparr>log_file := f\<rparr>) d s t))
     = next_decision_id (snd (logDecision p lg d s t))
   \<and> last_hash (snd (logDecision p (lg\<lparr>log_file := f\<rparr>) d s t))
     = last_hash (snd (logDecision p lg d s t))"
  by (simp add: logDecision_def Let_def)

text \<open>
  C8, as the code has it. \<open>logDecision\<close> returns nothing. With the backing file not open
  it leaves the stream as it is, so nothing is written; with the file open and the
  stream good it writes one line for the record. In both cases it appends the record to
  the trail in memory and advances \<open>next_decision_id\<close> and \<open>last_hash\<close> in the same way.
  That a file could not be opened is told by the \<open>bool\<close> that \<open>open\<close> returns, which the
  constructor \<open>AuditLogger(filename)\<close> drops.
\<close>

theorem logDecision_without_file:
  "(\<not> is_open (log_file lg) \<longrightarrow> log_file (snd (logDecision p lg d s t)) = log_file lg)
   \<and> (is_open (log_file lg) \<and> \<not> failbit (log_file lg) \<longrightarrow>
        written (log_file (snd (logDecision p lg d s t))) =
          written (log_file lg) @ [csv_row p (last (audit_trail (snd (logDecision p lg d s t))))])
   \<and> length (audit_trail (snd (logDecision p lg d s t))) = Suc (length (audit_trail lg))
   \<and> audit_trail (snd (logDecision p (lg\<lparr>log_file := f\<rparr>) d s t))
       = audit_trail (snd (logDecision p lg d s t))
   \<and> next_decision_id (snd (logDecision p (lg\<lparr>log_file := f\<rparr>) d s t))
       = next_decision_id (snd (logDecision p lg d s t))
   \<and> last_hash (snd (logDecision p (lg\<lparr>log_file := f\<rparr>) d s t))
       = last_hash (snd (logDecision p lg d s t))
   \<and> fst (logDecision p lg d s t) = ()
   \<and> fst (open_file OpenFails AuditLogger_init) = False
   \<and> \<not> is_open (log_file (AuditLogger_file OpenFails))"
  by (simp add: logDecision_def Let_def insert_text_def open_file_def AuditLogger_file_def
        AuditLogger_init_def ofstream_init_def)

theorem logDecision_without_file_witness:
  "\<not> is_open (log_file (AuditLogger_file OpenFails))
   \<and> log_file (snd (logDecision demo_platform (AuditLogger_file OpenFails) valid_decision
        ''DEMO'' ''s1'')) = log_file (AuditLogger_file OpenFails)
   \<and> is_open (log_file (AuditLogger_file (OpenOk False)))
   \<and> \<not> failbit (log_file (AuditLogger_file (OpenOk False)))
   \<and> length (written (log_file (snd (logDecision demo_platform (AuditLogger_file (OpenOk False))
        valid_decision ''DEMO'' ''s1'')))) = 1"
  using logDecision_without_file
      [where lg = "AuditLogger_file OpenFails" and p = demo_platform and d = valid_decision
         and s = "''DEMO''" and t = "''s1''" and f = ofstream_init]
    logDecision_without_file
      [where lg = "AuditLogger_file (OpenOk False)" and p = demo_platform and d = valid_decision
         and s = "''DEMO''" and t = "''s1''" and f = ofstream_init]
  by (simp add: open_file_def AuditLogger_file_def AuditLogger_init_def ofstream_init_def)

text \<open>
  C8, as the claim has it, fails: for a logger whose file could not be opened,
  \<open>logDecision\<close> returns the same (unit) value as for one whose file is open, writes
  nothing, and leaves in memory what it leaves with an open file; \<open>verifyIntegrity\<close>
  answers the same for both.
\<close>

theorem logDecision_failure_not_surfaced:
  "fst (open_file OpenFails AuditLogger_init) = False
   \<and> \<not> is_open (log_file (AuditLogger_file OpenFails))
   \<and> fst (logDecision demo_platform (AuditLogger_file OpenFails) valid_decision ''DEMO'' ''s1'')
       = fst (logDecision demo_platform (AuditLogger_file (OpenOk True)) valid_decision ''DEMO'' ''s1'')
   \<and> written (log_file (snd (logDecision demo_platform (AuditLogger_file OpenFails)
        valid_decision ''DEMO'' ''s1''))) = []
   \<and> length (written (log_file (snd (logDecision demo_platform (AuditLogger_file (OpenOk True))
        valid_decision ''DEMO'' ''s1'')))) = 2
   \<and> audit_trail (snd (logDecision demo_platform (AuditLogger_file OpenFails) valid_decision
        ''DEMO'' ''s1''))
       = audit_trail (snd (logDecision demo_platform (AuditLogger_file (OpenOk True))
           valid_decision ''DEMO'' ''s1''))
   \<and> verifyIntegrity (snd (logDecision demo_platform (AuditLogger_file OpenFails) valid_decision
        ''DEMO'' ''s1''))
       = verifyIntegrity (snd (logDecision demo_platform (AuditLogger_file (OpenOk True))
           valid_decision ''DEMO'' ''s1''))"
proof -
  have f: "AuditLogger_file OpenFails = AuditLogger_init\<lparr>log_file := log_file (AuditLogger_file OpenFails)\<rparr>"
    by (rule AuditLogger_file_eq)
  have g: "AuditLogger_file (OpenOk True)
      = AuditLogger_init\<lparr>log_file := log_file (AuditLogger_file (OpenOk True))\<rparr>"
    by (rule AuditLogger_file_eq)
  have m: "audit_trail (snd (logDecision demo_platform (AuditLogger_file OpenFails) valid_decision
        ''DEMO'' ''s1''))
       = audit_trail (snd (logDecision demo_platform (AuditLogger_file (OpenOk True))
           valid_decision ''DEMO'' ''s1''))"
    by (subst f, subst g) (simp only: logDecision_memory)
  have w0: "written (log_file (snd (logDecision demo_platform (AuditLogger_file OpenFails)
        valid_decision ''DEMO'' ''s1''))) = []"
    by (simp add: logDecision_def Let_def open_file_def AuditLogger_file_def
          AuditLogger_init_def ofstream_init_def)
  have w1: "length (written (log_file (snd (logDecision demo_platform (AuditLogger_file (OpenOk True))
        valid_decision ''DEMO'' ''s1'')))) = 2"
    by (simp add: logDecision_def Let_def open_file_def AuditLogger_file_def insert_text_def
          AuditLogger_init_def ofstream_init_def)
  have o: "fst (open_file OpenFails AuditLogger_init) = False"
      "\<not> is_open (log_file (AuditLogger_file OpenFails))"
    by (simp_all add: open_file_def AuditLogger_file_def AuditLogger_init_def ofstream_init_def)
  from m w0 w1 o show ?thesis
    by (simp add: verifyIntegrity_def)
qed

end
